theory Spec2Isabelle
  imports Complex_Main
begin

section \<open>JavaScript values\<close>

text \<open>
  A JavaScript number is an IEEE 754 double. Finite values are kept as the rational they
  denote, and the two zeros are identified. The arithmetic below rounds every exact
  result to the nearest double, ties to even.
\<close>

datatype number = NaN | PosInf | NegInf | Fin rat

text \<open>
  Strings are sequences of code units. The model keeps the code units below 256
  (\<^typ>\<open>char\<close>); a string holding other code units is outside the model.
\<close>

datatype jsval =
    JUndefined
  | JNull
  | JBool bool
  | JNum number
  | JStr string
  | JArr "jsval list"
  | JObj "(string \<times> jsval) list"

section \<open>The zod runtime (external collaborator)\<close>

text \<open>
  The library builds its fragments from the zod 3 runtime, which is a dependency and not
  part of the repository's sources. The definitions of this section follow zod 3.22:
  \<^verbatim>\<open>getParsedType\<close>, the English default error map, \<^verbatim>\<open>processCreateParams\<close>,
  \<^verbatim>\<open>makeIssue\<close>/\<^verbatim>\<open>addIssueToContext\<close> and the synchronous \<^verbatim>\<open>_parse\<close> methods of the
  schema classes the library uses. No global error map is installed
  (\<^verbatim>\<open>z.setErrorMap\<close> is never called) and \<^verbatim>\<open>safeParse\<close> is called without a contextual
  error map.
\<close>

datatype ZodParsedType =
    PT_string | PT_nan | PT_number | PT_boolean | PT_undefined | PT_null | PT_array | PT_object

fun getParsedType :: "jsval \<Rightarrow> ZodParsedType" where
  "getParsedType JUndefined = PT_undefined"
| "getParsedType (JStr s) = PT_string"
| "getParsedType (JNum n) = (if n = NaN then PT_nan else PT_number)"
| "getParsedType (JBool b) = PT_boolean"
| "getParsedType (JArr xs) = PT_array"
| "getParsedType JNull = PT_null"
| "getParsedType (JObj kvs) = PT_object"

fun parsedType_name :: "ZodParsedType \<Rightarrow> string" where
  "parsedType_name PT_string = ''string''"
| "parsedType_name PT_nan = ''nan''"
| "parsedType_name PT_number = ''number''"
| "parsedType_name PT_boolean = ''boolean''"
| "parsedType_name PT_undefined = ''undefined''"
| "parsedType_name PT_null = ''null''"
| "parsedType_name PT_array = ''array''"
| "parsedType_name PT_object = ''object''"

text \<open>The issue codes the modelled schemas can raise, with the fields the error maps read.\<close>

datatype issue_code =
    invalid_type string ZodParsedType  \<comment> \<open>expected, received\<close>
  | invalid_enum_value "string list" string  \<comment> \<open>options, received\<close>
  | invalid_union
  | invalid_string string  \<comment> \<open>validation: uuid, regex, url\<close>
  | too_small_string nat  \<comment> \<open>minimum; type string, inclusive\<close>
  | too_small_array nat  \<comment> \<open>minimum; type array, inclusive\<close>
  | too_small_number int bool  \<comment> \<open>minimum, inclusive; type number\<close>
  | custom

text \<open>
  A fragment is validated on its own, so an issue of the fragment has the empty
  \<^verbatim>\<open>path\<close>; the index that the issue of an array element carries is not modelled.
\<close>

record issue =
  code :: issue_code
  message :: string

type_synonym ZodErrorMap = "issue_code \<Rightarrow> jsval \<Rightarrow> string \<Rightarrow> string"
  \<comment> \<open>the issue, \<^verbatim>\<open>ctx.data\<close>, \<^verbatim>\<open>ctx.defaultError\<close>; the result is the \<^verbatim>\<open>message\<close> field\<close>

fun nat_digits :: "nat \<Rightarrow> nat \<Rightarrow> string" where
  "nat_digits 0 n = []"
| "nat_digits (Suc fuel) n =
     (if n < 10 then [char_of (48 + n)]
      else nat_digits fuel (n div 10) @ [char_of (48 + n mod 10)])"

definition show_nat :: "nat \<Rightarrow> string" where
  "show_nat n = nat_digits (Suc n) n"

fun joinWith :: "string \<Rightarrow> string list \<Rightarrow> string" where
  "joinWith sep [] = []"
| "joinWith sep [x] = x"
| "joinWith sep (x # y # ys) = x @ sep @ joinWith sep (y # ys)"

definition show_int :: "int \<Rightarrow> string" where
  "show_int i = (if i < 0 then ''-'' @ show_nat (nat (- i)) else show_nat (nat i))"

definition joinValues :: "string list \<Rightarrow> string" where
  "joinValues vs = joinWith '' | '' (map (\<lambda>v. [CHR 0x27] @ v @ [CHR 0x27]) vs)"

text \<open>\<^verbatim>\<open>locales/en.ts\<close>, for the issue codes above.\<close>

fun defaultErrorMap :: ZodErrorMap where
  "defaultErrorMap (invalid_type expected received) data dflt =
     (if received = PT_undefined then ''Required''
      else ''Expected '' @ expected @ '', received '' @ parsedType_name received)"
| "defaultErrorMap (invalid_enum_value options received) data dflt =
     ''Invalid enum value. Expected '' @ joinValues options @ '', received '' @
       [CHR 0x27] @ received @ [CHR 0x27]"
| "defaultErrorMap invalid_union data dflt = ''Invalid input''"
| "defaultErrorMap (invalid_string kind) data dflt =
     (if kind = ''regex'' then ''Invalid'' else ''Invalid '' @ kind)"
| "defaultErrorMap (too_small_string minimum) data dflt =
     ''String must contain at least '' @ show_nat minimum @ '' character(s)''"
| "defaultErrorMap (too_small_array minimum) data dflt =
     ''Array must contain at least '' @ show_nat minimum @ '' element(s)''"
| "defaultErrorMap (too_small_number minimum inclusive) data dflt =
     ''Number must be '' @
       (if inclusive then ''greater than or equal to '' else ''greater than '') @
       show_int minimum"
| "defaultErrorMap custom data dflt = ''Invalid input''"

text \<open>
  \<^verbatim>\<open>RawCreateParams\<close>: either a custom \<^verbatim>\<open>errorMap\<close> or the two optional texts.
  \<^verbatim>\<open>processCreateParams\<close> turns the texts into the schema's error map; \<^verbatim>\<open>??\<close> keeps an
  empty string.
\<close>

datatype RawCreateParams =
    NoParams
  | ErrorMap ZodErrorMap
  | Messages "string option" "string option"  \<comment> \<open>\<^verbatim>\<open>required_error\<close>, \<^verbatim>\<open>invalid_type_error\<close>\<close>

definition nullish :: "string option \<Rightarrow> string \<Rightarrow> string" where
  "nullish x d = (case x of None \<Rightarrow> d | Some s \<Rightarrow> s)"

fun is_invalid_type :: "issue_code \<Rightarrow> bool" where
  "is_invalid_type (invalid_type e r) = True"
| "is_invalid_type c = False"

definition customMap :: "string option \<Rightarrow> string option \<Rightarrow> ZodErrorMap" where
  "customMap required_error invalid_type_error iss data dflt =
     (if \<not> is_invalid_type iss then dflt
      else if data = JUndefined then nullish required_error dflt
      else nullish invalid_type_error dflt)"

fun processCreateParams :: "RawCreateParams \<Rightarrow> ZodErrorMap option" where
  "processCreateParams NoParams = None"
| "processCreateParams (ErrorMap m) = Some m"
| "processCreateParams (Messages required_error invalid_type_error) =
     Some (customMap required_error invalid_type_error)"

text \<open>
  \<^verbatim>\<open>makeIssue\<close> with the maps \<^verbatim>\<open>[schemaErrorMap, defaultErrorMap]\<close>, applied from the last
  to the first; an issue's own non-empty \<^verbatim>\<open>message\<close> wins (\<^verbatim>\<open>issueData.message || errorMessage\<close>).
\<close>

definition makeIssue :: "ZodErrorMap option \<Rightarrow> jsval \<Rightarrow> issue_code \<Rightarrow> string option \<Rightarrow> issue" where
  "makeIssue schemaErrorMap data iss msg =
     (let errorMessage0 = defaultErrorMap iss data [];
          errorMessage = (case schemaErrorMap of
                            None \<Rightarrow> errorMessage0
                          | Some m \<Rightarrow> m iss data errorMessage0)
      in \<lparr>code = iss,
          message = (case msg of
                       None \<Rightarrow> errorMessage
                     | Some m \<Rightarrow> if m = [] then errorMessage else m)\<rparr>)"

section \<open>Strings and regular expressions of the host language\<close>

text \<open>
  \<^verbatim>\<open>\s\<close> and \<^verbatim>\<open>String.prototype.trim\<close> use the same set: white space and line
  terminators. Below 256 these are TAB, LF, VT, FF, CR, space and NBSP.
\<close>

definition is_space :: "char \<Rightarrow> bool" where
  "is_space c = (of_char c \<in> {9, 10, 11, 12, 13, 32, 160 :: nat})"

definition trim :: "string \<Rightarrow> string" where
  "trim s = rev (dropWhile is_space (rev (dropWhile is_space s)))"

definition lower_char :: "char \<Rightarrow> char" where
  "lower_char c =
     (let n = (of_char c :: nat)
      in if (65 \<le> n \<and> n \<le> 90) \<or> (192 \<le> n \<and> n \<le> 222 \<and> n \<noteq> 215)
         then char_of (n + 32) else c)"

definition toLowerCase :: "string \<Rightarrow> string" where
  "toLowerCase s = map lower_char s"

definition startsWith :: "string \<Rightarrow> string \<Rightarrow> bool" where
  "startsWith s p = (take (length p) s = p)"

definition slice_from :: "nat \<Rightarrow> string \<Rightarrow> string" where
  "slice_from n s = drop n s"

definition in_range :: "char \<Rightarrow> char \<Rightarrow> char \<Rightarrow> bool" where
  "in_range lo hi c = ((of_char lo :: nat) \<le> of_char c \<and> (of_char c :: nat) \<le> of_char hi)"

definition hex_digit :: "char \<Rightarrow> bool" where
  "hex_digit c = (in_range CHR ''0'' CHR ''9'' c \<or> in_range CHR ''a'' CHR ''f'' c \<or>
                  in_range CHR ''A'' CHR ''F'' c)"

text \<open>
  The patterns given to \<^verbatim>\<open>test\<close> by the library and by zod are of the form \<^verbatim>\<open>^...$\<close>,
  without the flag \<^verbatim>\<open>m\<close>: \<^verbatim>\<open>test\<close> holds when the whole string matches the body. Bodies
  are built from character classes, sequence, alternative and repetition, and matched
  by derivatives.
\<close>

datatype regex =
    Nothing
  | Empty
  | Class "char \<Rightarrow> bool"
  | Alt regex regex
  | Seq regex regex
  | Star regex

definition Plus :: "regex \<Rightarrow> regex" where
  "Plus r = Seq r (Star r)"

fun Times :: "nat \<Rightarrow> regex \<Rightarrow> regex" where
  "Times 0 r = Empty"
| "Times (Suc n) r = Seq r (Times n r)"

definition Lit :: "char \<Rightarrow> regex" where
  "Lit c = Class (\<lambda>x. x = c)"

fun nullable :: "regex \<Rightarrow> bool" where
  "nullable Nothing = False"
| "nullable Empty = True"
| "nullable (Class p) = False"
| "nullable (Alt r s) = (nullable r \<or> nullable s)"
| "nullable (Seq r s) = (nullable r \<and> nullable s)"
| "nullable (Star r) = True"

fun deriv :: "char \<Rightarrow> regex \<Rightarrow> regex" where
  "deriv c Nothing = Nothing"
| "deriv c Empty = Nothing"
| "deriv c (Class p) = (if p c then Empty else Nothing)"
| "deriv c (Alt r s) = Alt (deriv c r) (deriv c s)"
| "deriv c (Seq r s) =
     (if nullable r then Alt (Seq (deriv c r) s) (deriv c s) else Seq (deriv c r) s)"
| "deriv c (Star r) = Seq (deriv c r) (Star r)"

fun matches :: "regex \<Rightarrow> string \<Rightarrow> bool" where
  "matches r [] = nullable r"
| "matches r (c # cs) = matches (deriv c r) cs"

section \<open>Numbers of the host language\<close>

fun num_less :: "number \<Rightarrow> number \<Rightarrow> bool" where
  "num_less NaN y = False"
| "num_less x NaN = False"
| "num_less PosInf y = False"
| "num_less x NegInf = False"
| "num_less NegInf y = True"
| "num_less x PosInf = True"
| "num_less (Fin a) (Fin b) = (a < b)"

fun num_eq :: "number \<Rightarrow> number \<Rightarrow> bool" where
  "num_eq NaN y = False"
| "num_eq x NaN = False"
| "num_eq x y = (x = y)"

definition num_le :: "number \<Rightarrow> number \<Rightarrow> bool" where
  "num_le x y = (num_less x y \<or> num_eq x y)"

definition num_ge :: "number \<Rightarrow> number \<Rightarrow> bool" where
  "num_ge x y = num_le y x"

definition isFinite :: "number \<Rightarrow> bool" where
  "isFinite n = (case n of Fin q \<Rightarrow> True | _ \<Rightarrow> False)"

text \<open>
  Rounding an exact result to a double: round to nearest, ties to even, on a mantissa of
  53 bits; exponents below \<open>-1022\<close> are subnormal, and a result of \<open>2^1024\<close> or more is
  infinite.
\<close>

fun bit_length :: "nat \<Rightarrow> nat" where
  "bit_length n = (if n = 0 then 0 else Suc (bit_length (n div 2)))"

declare bit_length.simps [simp del]

definition ilog2 :: "rat \<Rightarrow> int" where
  \<comment> \<open>\<open>\<lfloor>log\<^sub>2 a\<rfloor>\<close> for \<open>a > 0\<close>\<close>
  "ilog2 a =
     (if 1 \<le> a then int (bit_length (nat \<lfloor>a\<rfloor>)) - 1
      else - int (bit_length (nat (\<lceil>1 / a\<rceil> - 1))))"

definition pow2 :: "int \<Rightarrow> rat" where
  "pow2 k = (if 0 \<le> k then 2 ^ nat k else 1 / 2 ^ nat (- k))"

definition round_half_even :: "rat \<Rightarrow> int" where
  "round_half_even x =
     (let f = \<lfloor>x\<rfloor>; r = x - of_int f
      in if r < 1 / 2 then f else if 1 / 2 < r then f + 1 else if even f then f else f + 1)"

definition to_double :: "rat \<Rightarrow> number" where
  "to_double q =
     (if q = 0 then Fin 0
      else
        (let a = \<bar>q\<bar>;
             e = max (ilog2 a) (- 1022);
             ulp = pow2 (e - 52);
             r = of_int (round_half_even (a / ulp)) * ulp
         in if pow2 1024 \<le> r then (if q < 0 then NegInf else PosInf)
            else Fin (if q < 0 then - r else r)))"

definition num_sign :: "number \<Rightarrow> int" where
  "num_sign n =
     (case n of
        NaN \<Rightarrow> 0
      | PosInf \<Rightarrow> 1
      | NegInf \<Rightarrow> - 1
      | Fin q \<Rightarrow> if q < 0 then - 1 else if 0 < q then 1 else 0)"

text \<open>\<^verbatim>\<open>x * y\<close>: an infinite factor gives an infinity, or \<open>NaN\<close> against zero.\<close>

definition num_mul :: "number \<Rightarrow> number \<Rightarrow> number" where
  "num_mul x y =
     (case (x, y) of
        (Fin a, Fin b) \<Rightarrow> to_double (a * b)
      | _ \<Rightarrow>
          if x = NaN \<or> y = NaN then NaN
          else
            (let s = num_sign x * num_sign y
             in if s = 0 then NaN else if 0 < s then PosInf else NegInf))"

text \<open>\<^verbatim>\<open>x / d\<close> for a finite divisor \<open>d\<close> other than zero.\<close>

fun num_div_by :: "rat \<Rightarrow> number \<Rightarrow> number" where
  "num_div_by d (Fin a) = to_double (a / d)"
| "num_div_by d NaN = NaN"
| "num_div_by d PosInf = (if 0 < d then PosInf else NegInf)"
| "num_div_by d NegInf = (if 0 < d then NegInf else PosInf)"

text \<open>\<^verbatim>\<open>Math.round\<close>: the nearest integer, a tie going towards \<open>+\<infinity>\<close>.\<close>

fun Math_round :: "number \<Rightarrow> number" where
  "Math_round (Fin x) = Fin (of_int \<lfloor>x + 1 / 2\<rfloor>)"
| "Math_round n = n"

text \<open>
  \<^verbatim>\<open>Number(s)\<close> for a string (\<^verbatim>\<open>StringToNumber\<close>): white space around the literal is
  dropped, the empty string is zero, and the literal is a signed decimal literal
  (digits, fraction, exponent, or \<^verbatim>\<open>Infinity\<close>) or an unsigned binary, octal or
  hexadecimal integer; anything else is \<open>NaN\<close>.
\<close>

definition is_digit :: "char \<Rightarrow> bool" where
  "is_digit c = in_range CHR ''0'' CHR ''9'' c"

definition digit_value :: "char \<Rightarrow> nat" where
  "digit_value c =
     (if is_digit c then of_char c - 48
      else if in_range CHR ''a'' CHR ''f'' c then of_char c - 87
      else of_char c - 55)"

definition digits_value :: "nat \<Rightarrow> string \<Rightarrow> nat" where
  "digits_value base ds = foldl (\<lambda>acc c. base * acc + digit_value c) 0 ds"

definition pow10 :: "int \<Rightarrow> rat" where
  "pow10 k = (if 0 \<le> k then 10 ^ nat k else 1 / 10 ^ nat (- k))"

text \<open>The exponent part: \<open>None\<close> when the text is not one, the exponent otherwise.\<close>

definition ExponentPart :: "string \<Rightarrow> int option" where
  "ExponentPart t =
     (case t of
        [] \<Rightarrow> Some 0
      | c # ds \<Rightarrow>
          if c = CHR ''e'' \<or> c = CHR ''E'' then
            (let (neg, ds') =
                   (case ds of
                      [] \<Rightarrow> (False, ds)
                    | x # xs \<Rightarrow>
                        if x = CHR ''-'' then (True, xs)
                        else if x = CHR ''+'' then (False, xs) else (False, ds))
             in if ds' \<noteq> [] \<and> list_all is_digit ds'
                then Some (if neg then - int (digits_value 10 ds') else int (digits_value 10 ds'))
                else None)
          else None)"

definition StrUnsignedDecimalLiteral :: "string \<Rightarrow> number option" where
  "StrUnsignedDecimalLiteral t =
     (if t = ''Infinity'' then Some PosInf
      else
        (let ip = takeWhile is_digit t;
             r1 = dropWhile is_digit t;
             dot = (r1 \<noteq> [] \<and> hd r1 = CHR ''.'');
             fp = (if dot then takeWhile is_digit (tl r1) else []);
             r2 = (if dot then dropWhile is_digit (tl r1) else r1)
         in if ip = [] \<and> fp = [] then None
            else
              (case ExponentPart r2 of
                 None \<Rightarrow> None
               | Some e \<Rightarrow>
                   Some (to_double
                     (of_nat (digits_value 10 (ip @ fp)) * pow10 (e - int (length fp)))))))"

definition num_neg :: "number \<Rightarrow> number" where
  "num_neg n = (case n of NaN \<Rightarrow> NaN | PosInf \<Rightarrow> NegInf | NegInf \<Rightarrow> PosInf | Fin q \<Rightarrow> Fin (- q))"

definition StrDecimalLiteral :: "string \<Rightarrow> number option" where
  "StrDecimalLiteral t =
     (case t of
        [] \<Rightarrow> None
      | c # cs \<Rightarrow>
          if c = CHR ''+'' then StrUnsignedDecimalLiteral cs
          else if c = CHR ''-'' then map_option num_neg (StrUnsignedDecimalLiteral cs)
          else StrUnsignedDecimalLiteral t)"

definition NonDecimalIntegerLiteral :: "string \<Rightarrow> number option" where
  "NonDecimalIntegerLiteral t =
     (case t of
        z # k # ds \<Rightarrow>
          if z = CHR ''0'' \<and> ds \<noteq> [] then
            (if (k = CHR ''x'' \<or> k = CHR ''X'') \<and> list_all hex_digit ds
               then Some (to_double (of_nat (digits_value 16 ds)))
             else if (k = CHR ''o'' \<or> k = CHR ''O'') \<and> list_all (in_range CHR ''0'' CHR ''7'') ds
               then Some (to_double (of_nat (digits_value 8 ds)))
             else if (k = CHR ''b'' \<or> k = CHR ''B'') \<and> list_all (in_range CHR ''0'' CHR ''1'') ds
               then Some (to_double (of_nat (digits_value 2 ds)))
             else None)
          else None
      | _ \<Rightarrow> None)"

definition StringToNumber :: "string \<Rightarrow> number" where
  "StringToNumber s =
     (let t = trim s
      in if t = [] then Fin 0
         else
           (case StrDecimalLiteral t of
              Some n \<Rightarrow> n
            | None \<Rightarrow> (case NonDecimalIntegerLiteral t of Some n \<Rightarrow> n | None \<Rightarrow> NaN)))"

section \<open>The schema classes of zod used by the library\<close>

text \<open>
  The \<^verbatim>\<open>url\<close> check asks the host whether \<^verbatim>\<open>new URL(s)\<close> throws; the check carries
  that predicate.
\<close>

datatype string_check =
    Min nat "string option"
  | Uuid "string option"
  | Regex regex "string option"
  | Url "string \<Rightarrow> bool" "string option"

datatype ZodString = ZodString "ZodErrorMap option" "string_check list"

datatype number_check = NMin int bool "string option"  \<comment> \<open>value, inclusive, message\<close>

datatype ZodNumber = ZodNumber "ZodErrorMap option" "number_check list"

datatype effect =
    refinement "jsval \<Rightarrow> bool" "string option"
  | transform "jsval \<Rightarrow> jsval"
  | preprocess "jsval \<Rightarrow> jsval"

datatype ZodType =
    ZString ZodString
  | ZNumber ZodNumber
  | ZBoolean "ZodErrorMap option"
  | ZEnum "ZodErrorMap option" "string list"
  | ZOptional ZodType
  | ZEffects ZodType effect
  | ZUnion "ZodErrorMap option" "ZodType list"
  | ZArray "ZodErrorMap option" ZodType "(nat \<times> string option) option"
      \<comment> \<open>element schema, \<^verbatim>\<open>minLength\<close>\<close>
  | ZPipeline ZodType ZodType

text \<open>The constructors and methods of the zod API that the library calls.\<close>

definition z_string :: "RawCreateParams \<Rightarrow> ZodString" where
  "z_string params = ZodString (processCreateParams params) []"

fun addCheck :: "string_check \<Rightarrow> ZodString \<Rightarrow> ZodString" where
  "addCheck c (ZodString em cs) = ZodString em (cs @ [c])"

definition z_min :: "nat \<Rightarrow> string \<Rightarrow> ZodString \<Rightarrow> ZodString" where
  "z_min minLength msg s = addCheck (Min minLength (Some msg)) s"

definition z_uuid :: "string \<Rightarrow> ZodString \<Rightarrow> ZodString" where
  "z_uuid msg s = addCheck (Uuid (Some msg)) s"

definition z_regex :: "regex \<Rightarrow> string \<Rightarrow> ZodString \<Rightarrow> ZodString" where
  "z_regex r msg s = addCheck (Regex r (Some msg)) s"

definition z_url :: "(string \<Rightarrow> bool) \<Rightarrow> string \<Rightarrow> ZodString \<Rightarrow> ZodString" where
  "z_url URL_valid msg s = addCheck (Url URL_valid (Some msg)) s"

definition z_number :: "RawCreateParams \<Rightarrow> ZodNumber" where
  "z_number params = ZodNumber (processCreateParams params) []"

fun z_positive :: "string \<Rightarrow> ZodNumber \<Rightarrow> ZodNumber" where
  "z_positive msg (ZodNumber em cs) = ZodNumber em (cs @ [NMin 0 False (Some msg)])"

definition z_boolean :: "RawCreateParams \<Rightarrow> ZodType" where
  "z_boolean params = ZBoolean (processCreateParams params)"

definition z_enum :: "string list \<Rightarrow> RawCreateParams \<Rightarrow> ZodType" where
  "z_enum vs params = ZEnum (processCreateParams params) vs"

definition z_union :: "ZodType list \<Rightarrow> ZodType" where
  "z_union options = ZUnion None options"

definition z_optional :: "ZodType \<Rightarrow> ZodType" where
  "z_optional t = ZOptional t"

definition z_refine :: "(jsval \<Rightarrow> bool) \<Rightarrow> string \<Rightarrow> ZodType \<Rightarrow> ZodType" where
  "z_refine chk msg t = ZEffects t (refinement chk (Some msg))"

definition z_transform :: "(jsval \<Rightarrow> jsval) \<Rightarrow> ZodType \<Rightarrow> ZodType" where
  "z_transform f t = ZEffects t (transform f)"

definition z_preprocess :: "(jsval \<Rightarrow> jsval) \<Rightarrow> ZodType \<Rightarrow> ZodType" where
  "z_preprocess f t = ZEffects t (preprocess f)"

definition z_pipe :: "ZodType \<Rightarrow> ZodType \<Rightarrow> ZodType" where
  "z_pipe a b = ZPipeline a b"

definition z_array :: "ZodType \<Rightarrow> ZodType" where
  "z_array t = ZArray None t None"

text \<open>\<^verbatim>\<open>min\<close> of an array schema; the library calls it on the result of \<^verbatim>\<open>z.array\<close> only.\<close>

fun z_array_min :: "nat \<Rightarrow> string \<Rightarrow> ZodType \<Rightarrow> ZodType" where
  "z_array_min n msg (ZArray em t m) = ZArray em t (Some (n, Some msg))"
| "z_array_min n msg t = t"

text \<open>
  zod 3.22 \<^verbatim>\<open>uuidRegex\<close>: five groups of 8, 4, 4, 4 and 12 hexadecimal digits joined by
  hyphens (its \<^verbatim>\<open>\b\<close> before each hyphen always holds after a hexadecimal digit).
\<close>

definition uuidRegex :: regex where
  "uuidRegex =
     Seq (Times 8 (Class hex_digit)) (Seq (Lit CHR ''-'')
     (Seq (Times 4 (Class hex_digit)) (Seq (Lit CHR ''-'')
     (Seq (Times 4 (Class hex_digit)) (Seq (Lit CHR ''-'')
     (Seq (Times 4 (Class hex_digit)) (Seq (Lit CHR ''-'')
     (Times 12 (Class hex_digit)))))))))"

datatype ParseReturn = OK jsval | DIRTY jsval | INVALID

text \<open>
  \<^verbatim>\<open>_parse\<close>: the status with the value, and the issues added to the context, in the
  order in which they are added.
\<close>

fun string_check_issues :: "ZodErrorMap option \<Rightarrow> string \<Rightarrow> string_check \<Rightarrow> issue list" where
  "string_check_issues em s (Min n msg) =
     (if length s < n then [makeIssue em (JStr s) (too_small_string n) msg] else [])"
| "string_check_issues em s (Uuid msg) =
     (if \<not> matches uuidRegex s then [makeIssue em (JStr s) (invalid_string ''uuid'') msg]
      else [])"
| "string_check_issues em s (Regex r msg) =
     (if \<not> matches r s then [makeIssue em (JStr s) (invalid_string ''regex'') msg] else [])"
| "string_check_issues em s (Url URL_valid msg) =
     (if \<not> URL_valid s then [makeIssue em (JStr s) (invalid_string ''url'') msg] else [])"

fun ZodString_parse :: "ZodString \<Rightarrow> jsval \<Rightarrow> ParseReturn \<times> issue list" where
  "ZodString_parse (ZodString em cs) (JStr s) =
     (let issues = concat (map (string_check_issues em s) cs)
      in (if issues = [] then OK (JStr s) else DIRTY (JStr s), issues))"
| "ZodString_parse (ZodString em cs) v =
     (INVALID, [makeIssue em v (invalid_type ''string'' (getParsedType v)) None])"

fun number_check_issues :: "ZodErrorMap option \<Rightarrow> number \<Rightarrow> number_check \<Rightarrow> issue list" where
  "number_check_issues em n (NMin m inclusive msg) =
     (if (if inclusive then num_less n (Fin (of_int m)) else num_le n (Fin (of_int m)))
      then [makeIssue em (JNum n) (too_small_number m inclusive) msg] else [])"

text \<open>The last case is never reached: a value of parsed type \<open>number\<close> is a number.\<close>

fun ZodNumber_parse :: "ZodNumber \<Rightarrow> jsval \<Rightarrow> ParseReturn \<times> issue list" where
  "ZodNumber_parse (ZodNumber em cs) v =
     (if getParsedType v \<noteq> PT_number
      then (INVALID, [makeIssue em v (invalid_type ''number'' (getParsedType v)) None])
      else (case v of
              JNum n \<Rightarrow>
                (let issues = concat (map (number_check_issues em n) cs)
                 in (if issues = [] then OK v else DIRTY v, issues))
            | _ \<Rightarrow> (INVALID, [])))"

text \<open>
  \<^verbatim>\<open>ParseStatus.mergeArray\<close>: the results of the elements, merged into the status of
  the array; an aborted element aborts the array. A \<^verbatim>\<open>preprocess\<close> effect hands the
  processed value to its schema; the library uses it at the start of a validation only,
  where no issue has been raised yet.
\<close>

fun mergeArray :: "bool \<Rightarrow> ParseReturn list \<Rightarrow> jsval list \<Rightarrow> ParseReturn" where
  "mergeArray dirty [] arrayValue = (if dirty then DIRTY (JArr arrayValue) else OK (JArr arrayValue))"
| "mergeArray dirty (INVALID # rs) arrayValue = INVALID"
| "mergeArray dirty (DIRTY x # rs) arrayValue = mergeArray True rs (arrayValue @ [x])"
| "mergeArray dirty (OK x # rs) arrayValue = mergeArray dirty rs (arrayValue @ [x])"

fun ZodType_parse :: "ZodType \<Rightarrow> jsval \<Rightarrow> ParseReturn \<times> issue list"
  and union_options ::
    "ZodErrorMap option \<Rightarrow> ZodType list \<Rightarrow> jsval \<Rightarrow> (ParseReturn \<times> issue list) option \<Rightarrow>
       ParseReturn \<times> issue list" where
  "ZodType_parse (ZString s) v = ZodString_parse s v"
| "ZodType_parse (ZNumber n) v = ZodNumber_parse n v"
| "ZodType_parse (ZBoolean em) v =
     (if getParsedType v \<noteq> PT_boolean
      then (INVALID, [makeIssue em v (invalid_type ''boolean'' (getParsedType v)) None])
      else (OK v, []))"
| "ZodType_parse (ZEnum em vs) v =
     (case v of
        JStr s \<Rightarrow>
          if s \<notin> set vs then (INVALID, [makeIssue em v (invalid_enum_value vs s) None])
          else (OK v, [])
      | _ \<Rightarrow> (INVALID, [makeIssue em v (invalid_type (joinValues vs) (getParsedType v)) None]))"
| "ZodType_parse (ZOptional t) v =
     (if getParsedType v = PT_undefined then (OK JUndefined, []) else ZodType_parse t v)"
| "ZodType_parse (ZEffects t (refinement chk msg)) v =
     (case ZodType_parse t v of
        (INVALID, issues) \<Rightarrow> (INVALID, issues)
      | (DIRTY x, issues) \<Rightarrow>
          (DIRTY x, issues @ (if chk x then [] else [makeIssue None v custom msg]))
      | (OK x, issues) \<Rightarrow>
          (if chk x then (OK x, issues)
           else (DIRTY x, issues @ [makeIssue None v custom msg])))"
| "ZodType_parse (ZEffects t (transform f)) v =
     (case ZodType_parse t v of
        (OK x, issues) \<Rightarrow> (OK (f x), issues)
      | base \<Rightarrow> base)"
| "ZodType_parse (ZEffects t (preprocess f)) v = ZodType_parse t (f v)"
| "ZodType_parse (ZPipeline a b) v =
     (case ZodType_parse a v of
        (INVALID, issues) \<Rightarrow> (INVALID, issues)
      | (DIRTY x, issues) \<Rightarrow> (DIRTY x, issues)
      | (OK x, issues) \<Rightarrow>
          (case ZodType_parse b x of (r, issues') \<Rightarrow> (r, issues @ issues')))"
| "ZodType_parse (ZArray em t minLength) v =
     (case v of
        JArr items \<Rightarrow>
          (let short =
                 (case minLength of
                    None \<Rightarrow> []
                  | Some (n, msg) \<Rightarrow>
                      if length items < n then [makeIssue em v (too_small_array n) msg]
                      else []);
               results = map (ZodType_parse t) items
           in (mergeArray (short \<noteq> []) (map fst results) [],
               short @ concat (map snd results)))
      | _ \<Rightarrow> (INVALID, [makeIssue em v (invalid_type ''array'' (getParsedType v)) None]))"
| "ZodType_parse (ZUnion em options) v = union_options em options v None"
| "union_options em [] v dirty =
     (case dirty of
        Some r \<Rightarrow> r
      | None \<Rightarrow> (INVALID, [makeIssue em v invalid_union None]))"
| "union_options em (option # options) v dirty =
     (case ZodType_parse option v of
        (OK x, issues) \<Rightarrow> (OK x, [])
      | (DIRTY x, issues) \<Rightarrow>
          union_options em options v (if dirty = None then Some (DIRTY x, issues) else dirty)
      | (INVALID, issues) \<Rightarrow> union_options em options v dirty)"

datatype SafeParseReturn = SafeParseSuccess jsval | SafeParseError "issue list"

definition safeParse :: "ZodType \<Rightarrow> jsval \<Rightarrow> SafeParseReturn" where
  "safeParse t v =
     (case ZodType_parse t v of
        (OK x, issues) \<Rightarrow> SafeParseSuccess x
      | (r, issues) \<Rightarrow> SafeParseError issues)"

section \<open>The library: \<^verbatim>\<open>src/index.ts\<close>\<close>

definition FIELD_ERRORS_REQUIRED :: string where "FIELD_ERRORS_REQUIRED = ''is required''"
definition FIELD_ERRORS_STRING :: string where "FIELD_ERRORS_STRING = ''must be a string''"
definition FIELD_ERRORS_NUMBER :: string where "FIELD_ERRORS_NUMBER = ''must be a number''"
definition FIELD_ERRORS_BOOLEAN :: string where "FIELD_ERRORS_BOOLEAN = ''must be a boolean''"
definition FIELD_ERRORS_UUID :: string where "FIELD_ERRORS_UUID = ''must be a valid UUID''"
definition FIELD_ERRORS_ENUM :: string where "FIELD_ERRORS_ENUM = ''must be one of:''"
definition FIELD_ERRORS_DATE :: string where "FIELD_ERRORS_DATE = ''must be a valid date''"
definition FIELD_ERRORS_URL :: string where "FIELD_ERRORS_URL = ''must be a valid URL''"
definition FIELD_ERRORS_SLUG_FORMAT :: string where
  "FIELD_ERRORS_SLUG_FORMAT = ''must contain only lowercase letters, numbers and hyphens''"
definition FIELD_ERRORS_MOBILE :: string where
  "FIELD_ERRORS_MOBILE = ''must be a valid 10-digit mobile number''"
definition FIELD_ERRORS_EMAIL :: string where
  "FIELD_ERRORS_EMAIL = ''must be a valid email address''"

record CustomMessages =
  required :: "string option"
  invalid :: "string option"
  validation :: "string option"

text \<open>
  The second parameter \<^verbatim>\<open>customMessages?: CustomMessages | string\<close>, and a parameter
  with a default value (\<^verbatim>\<open>label = "This field"\<close>): \<open>None\<close> is the omitted argument.
\<close>

datatype customMessages = Omitted | Text string | Structured CustomMessages

definition default_arg :: "string \<Rightarrow> string option \<Rightarrow> string" where
  "default_arg d a = (case a of None \<Rightarrow> d | Some s \<Rightarrow> s)"

text \<open>\<^verbatim>\<open>a || b\<close> for an optional string \<open>a\<close>: the empty string is falsy.\<close>

definition js_or :: "string option \<Rightarrow> string \<Rightarrow> string" where
  "js_or a b = (case a of None \<Rightarrow> b | Some s \<Rightarrow> if s = [] then b else s)"

definition no_messages :: CustomMessages where
  "no_messages = \<lparr>required = None, invalid = None, validation = None\<rparr>"

text \<open>The template literal \<^verbatim>\<open>`${label} ${suffix}`\<close>.\<close>

definition with_label :: "string \<Rightarrow> string \<Rightarrow> string" where
  "with_label label suffix = label @ '' '' @ suffix"

definition requiredString :: "string option \<Rightarrow> customMessages \<Rightarrow> ZodString" where
  "requiredString label_arg customMessages =
     (let label = default_arg ''This field'' label_arg;
          messages =
            (case customMessages of
               Text s \<Rightarrow> \<lparr>required = Some s, invalid = Some s, validation = Some s\<rparr>
             | Structured m \<Rightarrow> m
             | Omitted \<Rightarrow> no_messages)
      in z_min 1
           (js_or (validation messages)
              (js_or (required messages) (with_label label FIELD_ERRORS_REQUIRED)))
           (z_string (Messages
              (Some (js_or (required messages) (with_label label FIELD_ERRORS_REQUIRED)))
              (Some (js_or (invalid messages) (with_label label FIELD_ERRORS_STRING))))))"

definition optionalString :: "string option \<Rightarrow> customMessages \<Rightarrow> ZodType" where
  "optionalString label_arg customMessages =
     (let label = default_arg ''This field'' label_arg;
          messages =
            (case customMessages of
               Text s \<Rightarrow> \<lparr>required = None, invalid = Some s, validation = None\<rparr>
             | Structured m \<Rightarrow> m
             | Omitted \<Rightarrow> no_messages)
      in z_optional (ZString (z_string (Messages None
           (Some (js_or (invalid messages) (with_label label FIELD_ERRORS_STRING)))))))"

definition requiredNumber :: "string option \<Rightarrow> customMessages \<Rightarrow> ZodNumber" where
  "requiredNumber label_arg customMessages =
     (let label = default_arg ''This field'' label_arg;
          messages =
            (case customMessages of
               Text s \<Rightarrow> \<lparr>required = Some s, invalid = Some s, validation = None\<rparr>
             | Structured m \<Rightarrow> m
             | Omitted \<Rightarrow> no_messages)
      in z_number (Messages
           (Some (js_or (required messages) (with_label label FIELD_ERRORS_REQUIRED)))
           (Some (js_or (invalid messages) (with_label label FIELD_ERRORS_NUMBER)))))"

definition positiveNumber :: "string option \<Rightarrow> customMessages \<Rightarrow> ZodNumber" where
  "positiveNumber label_arg customMessages =
     (let label = default_arg ''This field'' label_arg;
          messages =
            (case customMessages of
               Text s \<Rightarrow> \<lparr>required = None, invalid = Some s, validation = Some s\<rparr>
             | Structured m \<Rightarrow> m
             | Omitted \<Rightarrow> no_messages)
      in z_positive (js_or (validation messages) (label @ '' must be positive''))
           (z_number (Messages None
              (Some (js_or (invalid messages) (with_label label FIELD_ERRORS_NUMBER))))))"

definition optionalNumber :: "string option \<Rightarrow> customMessages \<Rightarrow> ZodType" where
  "optionalNumber label_arg customMessages =
     (let label = default_arg ''This field'' label_arg;
          messages =
            (case customMessages of
               Text s \<Rightarrow> \<lparr>required = None, invalid = Some s, validation = None\<rparr>
             | Structured m \<Rightarrow> m
             | Omitted \<Rightarrow> no_messages)
      in z_optional (ZNumber (z_number (Messages None
           (Some (js_or (invalid messages) (with_label label FIELD_ERRORS_NUMBER)))))))"

definition boolean :: "string option \<Rightarrow> customMessages \<Rightarrow> ZodType" where
  "boolean label_arg customMessages =
     (let label = default_arg ''This field'' label_arg;
          messages =
            (case customMessages of
               Text s \<Rightarrow> \<lparr>required = None, invalid = Some s, validation = None\<rparr>
             | Structured m \<Rightarrow> m
             | Omitted \<Rightarrow> no_messages)
      in z_boolean (Messages None
           (Some (js_or (invalid messages) (with_label label FIELD_ERRORS_BOOLEAN)))))"

definition optionalBoolean :: "string option \<Rightarrow> customMessages \<Rightarrow> ZodType" where
  "optionalBoolean label_arg customMessages =
     (let label = default_arg ''This field'' label_arg;
          messages =
            (case customMessages of
               Text s \<Rightarrow> \<lparr>required = None, invalid = Some s, validation = None\<rparr>
             | Structured m \<Rightarrow> m
             | Omitted \<Rightarrow> no_messages)
      in z_optional (z_boolean (Messages None
           (Some (js_or (invalid messages) (with_label label FIELD_ERRORS_BOOLEAN))))))"

definition uuid :: "string option \<Rightarrow> customMessages \<Rightarrow> ZodString" where
  "uuid label_arg customMessages =
     (let label = default_arg ''ID'' label_arg;
          messages =
            (case customMessages of
               Text s \<Rightarrow> \<lparr>required = Some s, invalid = Some s, validation = Some s\<rparr>
             | Structured m \<Rightarrow> m
             | Omitted \<Rightarrow> no_messages)
      in z_uuid (js_or (validation messages) (with_label label FIELD_ERRORS_UUID))
           (z_string (Messages
              (Some (js_or (required messages) (with_label label FIELD_ERRORS_REQUIRED)))
              (Some (js_or (invalid messages) (with_label label FIELD_ERRORS_STRING))))))"

definition optionalUUID :: "string option \<Rightarrow> customMessages \<Rightarrow> ZodType" where
  "optionalUUID label_arg customMessages =
     z_optional (ZString (uuid (Some (default_arg ''ID'' label_arg)) customMessages))"

definition Enum :: "string list \<Rightarrow> string option \<Rightarrow> customMessages \<Rightarrow> ZodType" where
  "Enum options label_arg customMessages =
     (let label = default_arg ''This field'' label_arg;
          messages =
            (case customMessages of
               Text s \<Rightarrow> \<lparr>required = None, invalid = None, validation = Some s\<rparr>
             | Structured m \<Rightarrow> m
             | Omitted \<Rightarrow> no_messages)
      in z_enum options (ErrorMap (\<lambda>iss data dflt.
           js_or (validation messages)
             (label @ '' '' @ FIELD_ERRORS_ENUM @ '' '' @ joinWith '', '' options))))"

text \<open>
  \<^verbatim>\<open>Date.parse\<close> is the host's; outside the ISO format its result is implementation
  defined, so \<open>dateString\<close> takes it as a parameter. \<^verbatim>\<open>isNaN\<close> of its result decides.
\<close>

definition isNaN :: "number \<Rightarrow> bool" where
  "isNaN n = (n = NaN)"

definition string_pred :: "(string \<Rightarrow> bool) \<Rightarrow> jsval \<Rightarrow> bool" where
  "string_pred p v = (case v of JStr s \<Rightarrow> p s | _ \<Rightarrow> False)"

definition dateString ::
    "(string \<Rightarrow> number) \<Rightarrow> string option \<Rightarrow> customMessages \<Rightarrow> ZodType" where
  "dateString Date_parse label_arg customMessages =
     (let label = default_arg ''Date'' label_arg;
          messages =
            (case customMessages of
               Text s \<Rightarrow> \<lparr>required = Some s, invalid = Some s, validation = Some s\<rparr>
             | Structured m \<Rightarrow> m
             | Omitted \<Rightarrow> no_messages)
      in z_refine (string_pred (\<lambda>val. \<not> isNaN (Date_parse val)))
           (js_or (validation messages) (with_label label FIELD_ERRORS_DATE))
           (ZString (z_string (Messages
              (Some (js_or (required messages) (with_label label FIELD_ERRORS_REQUIRED)))
              (Some (js_or (invalid messages) (with_label label FIELD_ERRORS_STRING)))))))"

definition optionalDate ::
    "(string \<Rightarrow> number) \<Rightarrow> string option \<Rightarrow> customMessages \<Rightarrow> ZodType" where
  "optionalDate Date_parse label_arg customMessages =
     z_optional (dateString Date_parse (Some (default_arg ''Date'' label_arg)) customMessages)"

text \<open>
  \<^verbatim>\<open>fileUrl\<close>, \<^verbatim>\<open>imageUrl\<close>: the host's URL parser is a parameter, as \<^verbatim>\<open>Date.parse\<close> is.
\<close>

definition fileUrl :: "(string \<Rightarrow> bool) \<Rightarrow> string option \<Rightarrow> customMessages \<Rightarrow> ZodType" where
  "fileUrl URL_valid label_arg customMessages =
     (let label = default_arg ''File URL'' label_arg;
          messages =
            (case customMessages of
               Text s \<Rightarrow> \<lparr>required = None, invalid = None, validation = Some s\<rparr>
             | Structured m \<Rightarrow> m
             | Omitted \<Rightarrow> no_messages)
      in z_optional (ZString
           (z_url URL_valid (js_or (validation messages) (with_label label FIELD_ERRORS_URL))
              (z_string NoParams))))"

definition imageUrl :: "(string \<Rightarrow> bool) \<Rightarrow> string option \<Rightarrow> customMessages \<Rightarrow> ZodType" where
  "imageUrl URL_valid label_arg customMessages =
     (let label = default_arg ''Image URL'' label_arg;
          messages =
            (case customMessages of
               Text s \<Rightarrow> \<lparr>required = None, invalid = None, validation = Some s\<rparr>
             | Structured m \<Rightarrow> m
             | Omitted \<Rightarrow> no_messages)
      in z_optional (ZString
           (z_url URL_valid (js_or (validation messages) (with_label label FIELD_ERRORS_URL))
              (z_string NoParams))))"

text \<open>\<^verbatim>\<open>/^[a-z0-9-]+$/\<close>\<close>

definition lower_alnum_hyphen :: "char \<Rightarrow> bool" where
  "lower_alnum_hyphen c =
     (in_range CHR ''a'' CHR ''z'' c \<or> in_range CHR ''0'' CHR ''9'' c \<or> c = CHR ''-'')"

definition slugRegex :: regex where
  "slugRegex = Plus (Class lower_alnum_hyphen)"

definition slug :: "string option \<Rightarrow> customMessages \<Rightarrow> ZodType" where
  "slug label_arg customMessages =
     (let label = default_arg ''Slug'' label_arg;
          messages =
            (case customMessages of
               Text s \<Rightarrow> \<lparr>required = None, invalid = Some s, validation = Some s\<rparr>
             | Structured m \<Rightarrow> m
             | Omitted \<Rightarrow> no_messages)
      in z_optional (ZString
           (z_regex slugRegex
              (js_or (validation messages) (with_label label FIELD_ERRORS_SLUG_FORMAT))
              (z_string (Messages None
                 (Some (js_or (invalid messages) (with_label label FIELD_ERRORS_STRING))))))))"

text \<open>\<^verbatim>\<open>/^[^\s@]+@[^\s@]+\.[^\s@]+$/\<close> and \<^verbatim>\<open>/^[0-9]{10}$/\<close>\<close>

definition not_space_at :: "char \<Rightarrow> bool" where
  "not_space_at c = (\<not> is_space c \<and> c \<noteq> CHR ''@'')"

definition emailRegex :: regex where
  "emailRegex =
     Seq (Plus (Class not_space_at)) (Seq (Lit CHR ''@'')
       (Seq (Plus (Class not_space_at)) (Seq (Lit CHR ''.'') (Plus (Class not_space_at)))))"

definition tenDigitsRegex :: regex where
  "tenDigitsRegex = Times 10 (Class is_digit)"

definition emailOrMobile :: "string option \<Rightarrow> customMessages \<Rightarrow> ZodType" where
  "emailOrMobile label_arg customMessages =
     (let label = default_arg ''Identifier'' label_arg;
          messages =
            (case customMessages of
               Text s \<Rightarrow> \<lparr>required = Some s, invalid = Some s, validation = Some s\<rparr>
             | Structured m \<Rightarrow> m
             | Omitted \<Rightarrow> no_messages)
      in z_refine
           (string_pred (\<lambda>val. matches emailRegex val \<or> matches tenDigitsRegex val))
           (js_or (validation messages)
              (label @ '' '' @ FIELD_ERRORS_EMAIL @ '' or '' @ FIELD_ERRORS_MOBILE))
           (ZString (z_string (Messages
              (Some (js_or (required messages) (with_label label FIELD_ERRORS_REQUIRED)))
              (Some (js_or (invalid messages) (with_label label FIELD_ERRORS_STRING)))))))"

section \<open>The library: \<^verbatim>\<open>src/extensions.ts\<close>\<close>

text \<open>
  A transform or a refinement written for strings (or numbers) is only ever applied to
  the output of a schema of that type; on another value, where the source would throw or
  coerce, the lifted function leaves the value or answers \<open>False\<close>.
\<close>

definition string_fun :: "(string \<Rightarrow> jsval) \<Rightarrow> jsval \<Rightarrow> jsval" where
  "string_fun f v = (case v of JStr s \<Rightarrow> f s | _ \<Rightarrow> v)"

definition num_pred :: "(number \<Rightarrow> bool) \<Rightarrow> jsval \<Rightarrow> bool" where
  "num_pred p v = (case v of JNum n \<Rightarrow> p n | _ \<Rightarrow> False)"

definition num_fun :: "(number \<Rightarrow> number) \<Rightarrow> jsval \<Rightarrow> jsval" where
  "num_fun f v = (case v of JNum n \<Rightarrow> JNum (f n) | _ \<Rightarrow> v)"

text \<open>\<^verbatim>\<open>typeof msg === "string" ? msg : msg?.field || dflt\<close>\<close>

definition msg_or ::
    "customMessages \<Rightarrow> (CustomMessages \<Rightarrow> string option) \<Rightarrow> string \<Rightarrow> string" where
  "msg_or msg field dflt =
     (case msg of
        Text s \<Rightarrow> s
      | Structured m \<Rightarrow> js_or (field m) dflt
      | Omitted \<Rightarrow> dflt)"

definition requiredStringTrimmed :: "string option \<Rightarrow> customMessages \<Rightarrow> ZodType" where
  "requiredStringTrimmed label_arg msg =
     (let label = default_arg ''This field'' label_arg
      in z_transform (string_fun (\<lambda>v. JStr (trim v)))
           (ZString (requiredString (Some label) msg)))"

definition emailNormalized :: "string option \<Rightarrow> customMessages \<Rightarrow> ZodType" where
  "emailNormalized label_arg msg =
     (let label = default_arg ''Email'' label_arg
      in z_refine (string_pred (matches emailRegex))
           (msg_or msg validation (with_label label FIELD_ERRORS_EMAIL))
        (z_transform (string_fun (\<lambda>v. JStr (toLowerCase (trim v))))
           (ZString (requiredString (Some label) msg))))"

text \<open>
  \<^verbatim>\<open>Number(v)\<close>; the conversion of an array or an object to a number goes through the
  host's \<^verbatim>\<open>ToPrimitive\<close> and is a parameter.
\<close>

definition Number_of :: "(jsval \<Rightarrow> number) \<Rightarrow> jsval \<Rightarrow> number" where
  "Number_of ToNumber_object v =
     (case v of
        JUndefined \<Rightarrow> NaN
      | JNull \<Rightarrow> Fin 0
      | JBool b \<Rightarrow> Fin (if b then 1 else 0)
      | JNum n \<Rightarrow> n
      | JStr s \<Rightarrow> StringToNumber s
      | _ \<Rightarrow> ToNumber_object v)"

definition coerceNumber :: "(jsval \<Rightarrow> number) \<Rightarrow> ZodType" where
  "coerceNumber ToNumber_object =
     z_preprocess
       (\<lambda>v. if v = JStr [] \<or> v = JNull \<or> v = JUndefined then JUndefined
            else JNum (Number_of ToNumber_object v))
       (ZNumber (z_number NoParams))"

definition coerceBoolean :: ZodType where
  "coerceBoolean =
     z_preprocess
       (\<lambda>v. if getParsedType v = PT_boolean then v
            else if v = JStr ''true'' \<or> v = JStr ''1'' \<or> v = JNum (Fin 1) then JBool True
            else if v = JStr ''false'' \<or> v = JStr ''0'' \<or> v = JNum (Fin 0) then JBool False
            else v)
       (z_boolean NoParams)"

definition optionalNumberCoerce ::
    "(jsval \<Rightarrow> number) \<Rightarrow> string option \<Rightarrow> customMessages \<Rightarrow> ZodType" where
  "optionalNumberCoerce ToNumber_object label_arg msg =
     (let label = default_arg ''This field'' label_arg
      in z_pipe (coerceNumber ToNumber_object) (optionalNumber (Some label) msg))"

definition booleanCoerce :: "string option \<Rightarrow> customMessages \<Rightarrow> ZodType" where
  "booleanCoerce label_arg msg =
     (let label = default_arg ''This field'' label_arg
      in z_pipe coerceBoolean (boolean (Some label) msg))"

text \<open>\<^verbatim>\<open>/^[a-z0-9\s-]+$/\<close>\<close>

definition slugSpaceRegex :: regex where
  "slugSpaceRegex = Plus (Class (\<lambda>c. lower_alnum_hyphen c \<or> is_space c))"

definition requiredSlugNormalized :: "string option \<Rightarrow> customMessages \<Rightarrow> ZodType" where
  "requiredSlugNormalized label_arg msg =
     (let label = default_arg ''Slug'' label_arg
      in z_transform (string_fun (\<lambda>v. JStr (toLowerCase (trim v))))
           (ZString
              (z_regex slugSpaceRegex
                 (msg_or msg validation (with_label label FIELD_ERRORS_SLUG_FORMAT))
                 (z_string (Messages None
                    (Some (msg_or msg invalid (with_label label FIELD_ERRORS_STRING))))))))"

definition optionalSlugNormalized :: "string option \<Rightarrow> customMessages \<Rightarrow> ZodType" where
  "optionalSlugNormalized label_arg msg =
     (let label = default_arg ''Slug'' label_arg
      in z_optional
           (z_transform (string_fun (\<lambda>v. JStr (toLowerCase (trim v))))
              (ZString
                 (z_regex slugSpaceRegex
                    (msg_or msg validation (with_label label FIELD_ERRORS_SLUG_FORMAT))
                    (z_string (Messages None
                       (Some (msg_or msg invalid (with_label label FIELD_ERRORS_STRING)))))))))"

definition enumFrom :: "string list \<Rightarrow> string option \<Rightarrow> customMessages \<Rightarrow> ZodType" where
  "enumFrom options label_arg msg =
     (let label = default_arg ''This field'' label_arg
      in Enum options (Some label) msg)"

text \<open>
  \<^verbatim>\<open>labels[v] ?? v\<close>: the lookup of an entry of the caller's \<^verbatim>\<open>labels\<close> object; \<open>None\<close>
  is the omitted argument, the empty object.
\<close>

definition enumWithLabels ::
    "string list \<Rightarrow> (string \<rightharpoonup> string) option \<Rightarrow> string option \<Rightarrow> customMessages \<Rightarrow> ZodType" where
  "enumWithLabels options labels_arg label_arg msg =
     (let labels = (case labels_arg of None \<Rightarrow> Map.empty | Some m \<Rightarrow> m);
          label = default_arg ''This field'' label_arg;
          e = z_enum options (ErrorMap (\<lambda>iss data dflt.
                msg_or msg validation
                  (label @ '' '' @ FIELD_ERRORS_ENUM @ '' '' @ joinWith '', '' options)))
      in z_transform
           (string_fun (\<lambda>v.
              JObj [(''value'', JStr v),
                    (''label'', JStr (case labels v of None \<Rightarrow> v | Some l \<Rightarrow> l))]))
           e)"

text \<open>\<^verbatim>\<open>/^[6-9]\d{9}$/\<close>; the email pattern is that of \<open>emailOrMobile\<close>.\<close>

definition mobileRegex :: regex where
  "mobileRegex = Seq (Class (in_range CHR ''6'' CHR ''9'')) (Times 9 (Class is_digit))"

text \<open>\<^verbatim>\<open>raw.replace(/[\s-]/g, "")\<close>\<close>

definition strip_spaces_hyphens :: "string \<Rightarrow> string" where
  "strip_spaces_hyphens raw = filter (\<lambda>c. \<not> (is_space c \<or> c = CHR ''-'')) raw"

definition emailOrMobileNormalized :: "string option \<Rightarrow> customMessages \<Rightarrow> ZodType" where
  "emailOrMobileNormalized label_arg msg =
     (let label = default_arg ''Identifier'' label_arg
      in z_transform
           (string_fun (\<lambda>raw.
              if matches emailRegex raw
              then JObj [(''type'', JStr ''email''), (''value'', JStr (toLowerCase raw))]
              else JObj [(''type'', JStr ''mobile''), (''value'', JStr raw)]))
        (z_refine
           (string_pred (\<lambda>raw. matches emailRegex raw \<or> matches mobileRegex raw))
           (msg_or msg validation (label @ '' must be a valid email or mobile''))
        (z_transform
           (string_fun (\<lambda>raw. JStr (if startsWith raw ''+91'' then slice_from 3 raw else raw)))
        (z_transform
           (string_fun (\<lambda>raw. JStr (strip_spaces_hyphens (trim raw))))
        (ZString (z_string (Messages
           (Some (msg_or msg required (with_label label FIELD_ERRORS_REQUIRED)))
           (Some (msg_or msg invalid (with_label label FIELD_ERRORS_STRING))))))))))"

text \<open>
  \<^verbatim>\<open>/^[0-9]{6}$/\<close>, \<^verbatim>\<open>/^[a-z]{5}\d{4}[a-z]$/i\<close> (under the flag \<^verbatim>\<open>i\<close> the class
  \<^verbatim>\<open>[a-z]\<close> holds the letters of both cases) and \<^verbatim>\<open>/^\d{2}[a-z0-9]{10}\d[zZ][a-z0-9]$/\<close>
\<close>

definition pinRegex :: regex where
  "pinRegex = Times 6 (Class is_digit)"

definition ascii_letter :: "char \<Rightarrow> bool" where
  "ascii_letter c = (in_range CHR ''a'' CHR ''z'' c \<or> in_range CHR ''A'' CHR ''Z'' c)"

definition panRegex :: regex where
  "panRegex = Seq (Times 5 (Class ascii_letter)) (Seq (Times 4 (Class is_digit)) (Class ascii_letter))"

definition lower_alnum :: "char \<Rightarrow> bool" where
  "lower_alnum c = (in_range CHR ''a'' CHR ''z'' c \<or> in_range CHR ''0'' CHR ''9'' c)"

definition gstinRegex :: regex where
  "gstinRegex =
     Seq (Times 2 (Class is_digit)) (Seq (Times 10 (Class lower_alnum))
       (Seq (Class is_digit) (Seq (Class (\<lambda>c. c = CHR ''z'' \<or> c = CHR ''Z''))
         (Class lower_alnum))))"

definition pinCode :: "string option \<Rightarrow> customMessages \<Rightarrow> ZodString" where
  "pinCode label_arg msg =
     (let label = default_arg ''PIN Code'' label_arg
      in z_regex pinRegex (msg_or msg validation (label @ '' must be 6 digits''))
           (requiredString (Some label) msg))"

definition pan :: "string option \<Rightarrow> customMessages \<Rightarrow> ZodType" where
  "pan label_arg msg =
     (let label = default_arg ''PAN'' label_arg
      in z_transform (string_fun (\<lambda>v. JStr (toLowerCase (trim v))))
           (ZString
              (z_regex panRegex (msg_or msg validation (label @ '' must be a valid PAN''))
                 (requiredString (Some label) msg))))"

definition gstin :: "string option \<Rightarrow> customMessages \<Rightarrow> ZodType" where
  "gstin label_arg msg =
     (let label = default_arg ''GSTIN'' label_arg
      in z_transform (string_fun (\<lambda>v. JStr (toLowerCase (trim v))))
           (ZString
              (z_regex gstinRegex (msg_or msg validation (label @ '' must be a valid GSTIN''))
                 (requiredString (Some label) msg))))"

definition inMobile :: "string option \<Rightarrow> customMessages \<Rightarrow> ZodType" where
  "inMobile label_arg msg =
     (let label = default_arg ''Mobile'' label_arg
      in z_refine (string_pred (matches mobileRegex))
           (msg_or msg validation (with_label label FIELD_ERRORS_MOBILE))
        (z_transform
           (string_fun (\<lambda>v. JStr (if startsWith v ''+91'' then slice_from 3 v else v)))
        (z_transform
           (string_fun (\<lambda>v. JStr (strip_spaces_hyphens v)))
        (ZString (requiredString (Some label) msg)))))"

definition money :: "string option \<Rightarrow> customMessages \<Rightarrow> ZodType" where
  "money label_arg msg =
     (let label = default_arg ''Amount'' label_arg
      in z_transform
           (num_fun (\<lambda>n. num_div_by 100 (Math_round (num_mul n (Fin 100)))))
        (z_refine
           (num_pred (\<lambda>n. num_ge n (Fin 0)))
           (msg_or msg validation (label @ '' must be >= 0''))
        (z_refine
           (num_pred isFinite)
           (msg_or msg invalid (with_label label FIELD_ERRORS_NUMBER))
        (z_transform
           (\<lambda>v. case v of JStr s \<Rightarrow> JNum (StringToNumber s) | _ \<Rightarrow> v)
        (z_union [ZNumber (z_number NoParams), ZString (z_string NoParams)])))))"

definition isoDateTime ::
    "(string \<Rightarrow> number) \<Rightarrow> string option \<Rightarrow> customMessages \<Rightarrow> ZodType" where
  "isoDateTime Date_parse label_arg msg =
     (let label = default_arg ''Date'' label_arg
      in z_refine (string_pred (\<lambda>v. \<not> isNaN (Date_parse v)))
           (msg_or msg validation (with_label label FIELD_ERRORS_DATE))
           (ZString (requiredString (Some label) msg)))"

text \<open>
  \<^verbatim>\<open>new Date(v) > new Date(minISO)\<close> compares the time values, which for a string are
  those of \<^verbatim>\<open>Date.parse\<close>.
\<close>

definition dateAfter :: "(string \<Rightarrow> number) \<Rightarrow> string \<Rightarrow> string option \<Rightarrow> ZodType" where
  "dateAfter Date_parse minISO label_arg =
     (let label = default_arg ''Date'' label_arg
      in z_refine (string_pred (\<lambda>v. num_less (Date_parse minISO) (Date_parse v)))
           (label @ '' must be after '' @ minISO)
           (isoDateTime Date_parse (Some label) Omitted))"

definition array_pred :: "(jsval list \<Rightarrow> bool) \<Rightarrow> jsval \<Rightarrow> bool" where
  "array_pred p v = (case v of JArr xs \<Rightarrow> p xs | _ \<Rightarrow> False)"

definition nonEmptyArrayOf :: "ZodType \<Rightarrow> string option \<Rightarrow> ZodType" where
  "nonEmptyArrayOf schema label_arg =
     (let label = default_arg ''Items'' label_arg
      in z_array_min 1 (label @ '' must contain at least 1 item'') (z_array schema))"

text \<open>
  \<^verbatim>\<open>new Set(arr.map((x) => x?.[key])).size === arr.length\<close> is the host's: whether the
  values selected by the key are pairwise different is a parameter.
\<close>

definition uniqueArrayBy ::
    "(string \<Rightarrow> jsval list \<Rightarrow> bool) \<Rightarrow> ZodType \<Rightarrow> string \<Rightarrow> string option \<Rightarrow> ZodType" where
  "uniqueArrayBy keys_distinct schema key label_arg =
     (let label = default_arg ''Array'' label_arg
      in z_refine (array_pred (keys_distinct key)) (label @ '' must have unique '' @ key)
           (z_array schema))"

definition httpsUrl :: "(string \<Rightarrow> bool) \<Rightarrow> string option \<Rightarrow> customMessages \<Rightarrow> ZodType" where
  "httpsUrl URL_valid label_arg msg =
     (let label = default_arg ''URL'' label_arg
      in z_refine (string_pred (\<lambda>v. startsWith v ''https://'')) (label @ '' must use https'')
           (ZString
              (z_url URL_valid (msg_or msg validation (with_label label FIELD_ERRORS_URL))
                 (requiredString (Some label) msg))))"

text \<open>\<^verbatim>\<open>/^[a-z0-9-]+(\.[a-z0-9-]+)+$/\<close>\<close>

definition domainRegex :: regex where
  "domainRegex =
     Seq (Plus (Class lower_alnum_hyphen))
       (Plus (Seq (Lit CHR ''.'') (Plus (Class lower_alnum_hyphen))))"

definition domain :: "string option \<Rightarrow> customMessages \<Rightarrow> ZodType" where
  "domain label_arg msg =
     (let label = default_arg ''Domain'' label_arg
      in z_transform (string_fun (\<lambda>v. JStr (toLowerCase (trim v))))
           (ZString
              (z_regex domainRegex (msg_or msg validation (label @ '' must be a valid domain''))
                 (requiredString (Some label) msg))))"

text \<open>
  \<^verbatim>\<open>/\.(png|jpe?g|webp|gif|svg)(\?.*)?$/i\<close>: the pattern is not anchored at the start, so
  any text may precede it; \<^verbatim>\<open>.\<close> is any character but a line terminator, and under
  the flag \<^verbatim>\<open>i\<close> a letter of the pattern matches in both cases.
\<close>

fun Word_i :: "string \<Rightarrow> regex" where
  "Word_i [] = Empty"
| "Word_i (c # cs) = Seq (Class (\<lambda>x. lower_char x = c)) (Word_i cs)"

definition imageExtensionRegex :: regex where
  "imageExtensionRegex =
     Seq (Star (Class (\<lambda>c. True)))
       (Seq (Lit CHR ''.'')
         (Seq (Alt (Word_i ''png'')
                (Alt (Seq (Word_i ''jp'') (Seq (Alt (Word_i ''e'') Empty) (Word_i ''g'')))
                (Alt (Word_i ''webp'') (Alt (Word_i ''gif'') (Word_i ''svg'')))))
           (Alt (Seq (Lit CHR ''?'')
                   (Star (Class (\<lambda>c. of_char c \<noteq> (10 :: nat) \<and> of_char c \<noteq> (13 :: nat)))))
              Empty)))"

definition imageUrlStrict :: "(string \<Rightarrow> bool) \<Rightarrow> string option \<Rightarrow> ZodType" where
  "imageUrlStrict URL_valid label_arg =
     (let label = default_arg ''Image URL'' label_arg
      in z_refine (string_pred (matches imageExtensionRegex)) (label @ '' must point to an image'')
           (httpsUrl URL_valid (Some label) Omitted))"

text \<open>\<^verbatim>\<open>brandedUuid(brand, label = brand)\<close>; the transform is a cast and leaves the value.\<close>

definition brandedUuid :: "string \<Rightarrow> string option \<Rightarrow> ZodType" where
  "brandedUuid brand label_arg =
     (let label = default_arg brand label_arg
      in z_transform (\<lambda>v. v)
           (ZString
              (z_uuid (with_label label FIELD_ERRORS_UUID) (requiredString (Some label) Omitted))))"

section \<open>Failure classes\<close>

text \<open>
  The specification's three failure classes, read off an issue: a type error on an
  absent value is \<open>Required\<close>, a type error on a present value is \<open>InvalidType\<close>, every
  other issue is \<open>Validation\<close>.
\<close>

datatype FailureClass = Required | InvalidType | Validation

fun class_of_code :: "issue_code \<Rightarrow> FailureClass" where
  "class_of_code (invalid_type expected received) =
     (if received = PT_undefined then Required else InvalidType)"
| "class_of_code c = Validation"

definition failure_class :: "issue \<Rightarrow> FailureClass" where
  "failure_class i = class_of_code (code i)"

text \<open>The class and the message of every failure of a validation; none on success.\<close>

fun failures :: "SafeParseReturn \<Rightarrow> (FailureClass \<times> string) list" where
  "failures (SafeParseSuccess v) = []"
| "failures (SafeParseError issues) = map (\<lambda>i. (failure_class i, message i)) issues"

text \<open>
  The two normalising transforms of \<open>emailOrMobileNormalized\<close>, composed: what the
  refinement and the final transform see for an input string.
\<close>

definition normalize_identifier :: "string \<Rightarrow> string" where
  "normalize_identifier s =
     (let raw = strip_spaces_hyphens (trim s)
      in if startsWith raw ''+91'' then slice_from 3 raw else raw)"

text \<open>
  Rounding to the nearest integer with a tie going away from zero, as the specification
  words the rounding of \<open>money\<close>; to be compared with \<open>Math_round\<close>.
\<close>

definition round_half_away :: "rat \<Rightarrow> int" where
  "round_half_away x = (if 0 \<le> x then \<lfloor>x + 1 / 2\<rfloor> else - \<lfloor>- x + 1 / 2\<rfloor>)"

section \<open>Properties\<close>

subsection \<open>Evaluation rules\<close>

lemmas message_defs =
  default_arg_def js_or_def msg_or_def no_messages_def with_label_def
  FIELD_ERRORS_REQUIRED_def FIELD_ERRORS_STRING_def FIELD_ERRORS_NUMBER_def
  FIELD_ERRORS_BOOLEAN_def FIELD_ERRORS_UUID_def FIELD_ERRORS_ENUM_def FIELD_ERRORS_DATE_def
  FIELD_ERRORS_URL_def FIELD_ERRORS_SLUG_FORMAT_def FIELD_ERRORS_MOBILE_def
  FIELD_ERRORS_EMAIL_def

lemmas zod_defs =
  safeParse_def makeIssue_def customMap_def nullish_def failure_class_def
  z_string_def z_min_def z_uuid_def z_regex_def z_number_def z_boolean_def z_enum_def
  z_union_def z_optional_def z_refine_def z_transform_def

lemmas fragment_defs =
  requiredString_def optionalString_def requiredNumber_def positiveNumber_def
  optionalNumber_def boolean_def optionalBoolean_def uuid_def optionalUUID_def
  dateString_def optionalDate_def string_pred_def Let_def

lemmas string_eval =
  trim_def is_space_def strip_spaces_hyphens_def startsWith_def slice_from_def
  in_range_def is_digit_def hex_digit_def not_space_at_def Lit_def Plus_def

lemma trim_spaces:
  assumes "\<forall>c\<in>set s. is_space c"
  shows "trim s = []"
proof -
  from assms have d: "dropWhile is_space s = []" by simp
  show ?thesis by (simp only: trim_def d rev.simps dropWhile.simps)
qed

subsection \<open>Overrides of \<open>requiredString\<close>\<close>

text \<open>
  C1. A single non-empty string given as the override of \<open>requiredString\<close> is the
  message of each of its three failures: of the missing value (class \<open>Required\<close>), of
  a present value that is not a string (class \<open>InvalidType\<close>) and of the empty string
  (class \<open>Validation\<close>). Each of these inputs fails with exactly that one failure.
\<close>

theorem requiredString_text_override:
  assumes "m \<noteq> []"
  shows "failures (safeParse (ZString (requiredString l (Text m))) JUndefined) = [(Required, m)]
       \<and> failures (safeParse (ZString (requiredString l (Text m))) (JStr [])) = [(Validation, m)]
       \<and> (getParsedType v \<noteq> PT_undefined \<and> getParsedType v \<noteq> PT_string \<longrightarrow>
            failures (safeParse (ZString (requiredString l (Text m))) v) = [(InvalidType, m)])"
  using assms by (cases v) (simp_all add: requiredString_def message_defs zod_defs)

theorem requiredString_text_override_witness:
  "failures (safeParse (ZString (requiredString (Some ''X'') (Text ''custom''))) JUndefined)
     = [(Required, ''custom'')]
   \<and> failures (safeParse (ZString (requiredString (Some ''X'') (Text ''custom''))) (JStr []))
     = [(Validation, ''custom'')]
   \<and> failures (safeParse (ZString (requiredString (Some ''X'') (Text ''custom'')))
        (JNum (Fin 5)))
     = [(InvalidType, ''custom'')]"
  using requiredString_text_override [of "''custom''" "Some ''X''" "JNum (Fin 5)"] by simp

text \<open>
  C7. With the structured override that sets only \<open>validation\<close> (to a non-empty text),
  \<open>requiredString\<close> keeps the default messages \<open>label is required\<close> for a missing value
  and \<open>label must be a string\<close> for a present value that is not a string; only the
  failure of the empty string carries the override.
\<close>

theorem requiredString_validation_only_override:
  assumes "b \<noteq> []"
    and "ov = Structured \<lparr>required = None, invalid = None, validation = Some b\<rparr>"
  shows "failures (safeParse (ZString (requiredString (Some label) ov)) JUndefined)
           = [(Required, label @ '' is required'')]
       \<and> failures (safeParse (ZString (requiredString (Some label) ov)) (JStr []))
           = [(Validation, b)]
       \<and> (getParsedType v \<noteq> PT_undefined \<and> getParsedType v \<noteq> PT_string \<longrightarrow>
            failures (safeParse (ZString (requiredString (Some label) ov)) v)
              = [(InvalidType, label @ '' must be a string'')])"
  using assms by (cases v) (simp_all add: requiredString_def message_defs zod_defs)

theorem requiredString_validation_only_override_witness:
  "failures (safeParse (ZString (requiredString (Some ''label'')
       (Structured \<lparr>required = None, invalid = None, validation = Some ''bad''\<rparr>))) JUndefined)
     = [(Required, ''label is required'')]
   \<and> failures (safeParse (ZString (requiredString (Some ''label'')
       (Structured \<lparr>required = None, invalid = None, validation = Some ''bad''\<rparr>))) (JStr []))
     = [(Validation, ''bad'')]
   \<and> failures (safeParse (ZString (requiredString (Some ''label'')
       (Structured \<lparr>required = None, invalid = None, validation = Some ''bad''\<rparr>))) (JBool True))
     = [(InvalidType, ''label must be a string'')]"
  using requiredString_validation_only_override
    [of "''bad''" "Structured \<lparr>required = None, invalid = None, validation = Some ''bad''\<rparr>"
        "''label''" "JBool True"]
  by simp

subsection \<open>\<open>requiredStringTrimmed\<close>\<close>

lemma requiredString_accepts_non_empty:
  "s \<noteq> [] \<Longrightarrow> ZodString_parse (requiredString l msg) (JStr s) = (OK (JStr s), [])"
  by (cases s) (simp_all add: requiredString_def z_string_def z_min_def Let_def)

lemma requiredString_rejects_empty:
  "\<exists>m. ZodString_parse (requiredString l msg) (JStr []) =
         (DIRTY (JStr []), [\<lparr>code = too_small_string 1, message = m\<rparr>])"
  by (simp add: requiredString_def z_string_def z_min_def makeIssue_def Let_def)

text \<open>
  C10. \<open>requiredStringTrimmed\<close> checks the minimum length on the input as given and trims
  afterwards. For every label and override: the empty string is rejected with exactly
  one failure, of class \<open>Validation\<close> (with no override its message is the label and
  \<open>is required\<close>); every non-empty string is accepted, whatever remains of it after the
  trim, and the output is the trimmed input. So a non-empty input made of white space
  only is accepted and its validated output is the empty string.
\<close>

theorem requiredStringTrimmed_length_check_before_trim:
  "(s \<noteq> [] \<longrightarrow>
      safeParse (requiredStringTrimmed l msg) (JStr s) = SafeParseSuccess (JStr (trim s)))
   \<and> (s \<noteq> [] \<and> (\<forall>c\<in>set s. is_space c) \<longrightarrow>
      safeParse (requiredStringTrimmed l msg) (JStr s) = SafeParseSuccess (JStr []))
   \<and> map fst (failures (safeParse (requiredStringTrimmed l msg) (JStr []))) = [Validation]
   \<and> failures (safeParse (requiredStringTrimmed l Omitted) (JStr []))
      = [(Validation, default_arg ''This field'' l @ '' '' @ FIELD_ERRORS_REQUIRED)]"
proof -
  have accepted: "safeParse (requiredStringTrimmed l msg) (JStr s) = SafeParseSuccess (JStr (trim s))"
    if "s \<noteq> []"
    using requiredString_accepts_non_empty [OF that]
    by (simp add: requiredStringTrimmed_def string_fun_def zod_defs Let_def)
  have blank: "safeParse (requiredStringTrimmed l msg) (JStr s) = SafeParseSuccess (JStr [])"
    if "s \<noteq> []" and "\<forall>c\<in>set s. is_space c"
    using accepted [OF that(1)] trim_spaces [OF that(2)] by simp
  have empty: "map fst (failures (safeParse (requiredStringTrimmed l msg) (JStr []))) = [Validation]"
    using requiredString_rejects_empty [of "Some (default_arg ''This field'' l)" msg]
    by (auto simp add: requiredStringTrimmed_def zod_defs Let_def)
  have empty_default:
    "failures (safeParse (requiredStringTrimmed l Omitted) (JStr []))
       = [(Validation, default_arg ''This field'' l @ '' '' @ FIELD_ERRORS_REQUIRED)]"
    by (simp add: requiredStringTrimmed_def requiredString_def message_defs zod_defs Let_def)
  from accepted blank empty empty_default show ?thesis by blast
qed

theorem requiredStringTrimmed_length_check_before_trim_witness:
  "safeParse (requiredStringTrimmed (Some ''Name'') Omitted) (JStr '' '')
     = SafeParseSuccess (JStr [])
   \<and> safeParse (requiredStringTrimmed (Some ''Name'') Omitted) (JStr '' a b '')
     = SafeParseSuccess (JStr ''a b'')
   \<and> failures (safeParse (requiredStringTrimmed (Some ''Name'') Omitted) (JStr []))
     = [(Validation, ''Name is required'')]"
  using requiredStringTrimmed_length_check_before_trim [of "'' ''" "Some ''Name''" Omitted]
    requiredStringTrimmed_length_check_before_trim [of "'' a b ''" "Some ''Name''" Omitted]
  by (simp add: is_space_def trim_def default_arg_def FIELD_ERRORS_REQUIRED_def)

subsection \<open>\<open>Enum\<close>\<close>

text \<open>
  C5. \<open>Enum\<close> with no override accepts exactly the strings of its option list and
  returns them unchanged; every other value (a string outside the list, a missing
  value, a value that is not a string) fails with one failure whose message is the
  label, \<open>must be one of:\<close> and the options joined by a comma and a space in the given
  order. For the options \<open>a\<close>, \<open>b\<close> and the label \<open>Role\<close> the message is
  \<open>Role must be one of: a, b\<close>.
\<close>

theorem Enum_unified_message:
  "(v = JStr s \<and> s \<in> set options \<longrightarrow>
      safeParse (Enum options (Some label) Omitted) v = SafeParseSuccess v)
   \<and> ((\<forall>s\<in>set options. v \<noteq> JStr s) \<longrightarrow>
      map snd (failures (safeParse (Enum options (Some label) Omitted) v))
        = [label @ '' must be one of: '' @ joinWith '', '' options])"
  by (cases v) (auto simp add: Enum_def message_defs zod_defs)

theorem Enum_unified_message_witness:
  "safeParse (Enum [''a'', ''b''] (Some ''Role'') Omitted) (JStr ''a'')
     = SafeParseSuccess (JStr ''a'')
   \<and> safeParse (Enum [''a'', ''b''] (Some ''Role'') Omitted) (JStr ''b'')
     = SafeParseSuccess (JStr ''b'')
   \<and> map snd (failures (safeParse (Enum [''a'', ''b''] (Some ''Role'') Omitted) (JStr ''c'')))
     = [''Role must be one of: a, b'']
   \<and> map snd (failures (safeParse (Enum [''a'', ''b''] (Some ''Role'') Omitted) JUndefined))
     = [''Role must be one of: a, b'']
   \<and> map snd (failures (safeParse (Enum [''a'', ''b''] (Some ''Role'') Omitted) (JNum (Fin 1))))
     = [''Role must be one of: a, b'']"
  using Enum_unified_message [of "JStr ''a''" "''a''" "[''a'', ''b'']" "''Role''"]
    Enum_unified_message [of "JStr ''b''" "''b''" "[''a'', ''b'']" "''Role''"]
    Enum_unified_message [of "JStr ''c''" "''c''" "[''a'', ''b'']" "''Role''"]
    Enum_unified_message [of "JUndefined" "''c''" "[''a'', ''b'']" "''Role''"]
    Enum_unified_message [of "JNum (Fin 1)" "''c''" "[''a'', ''b'']" "''Role''"]
  by simp

subsection \<open>\<open>positiveNumber\<close>\<close>

text \<open>
  The part of C2 that the code satisfies, for every label and no override: a present
  value that is not a number yields exactly one failure, of class \<open>InvalidType\<close>, with
  the message \<open>label must be a number\<close>; a number that is not greater than zero yields
  exactly one failure, of class \<open>Validation\<close>; a number greater than zero is accepted
  unchanged; a missing value yields exactly one failure, of class \<open>Required\<close>.
\<close>

lemma positiveNumber_present_values:
  "(getParsedType v \<noteq> PT_undefined \<and> getParsedType v \<noteq> PT_number \<longrightarrow>
        failures (safeParse (ZNumber (positiveNumber l Omitted)) v)
          = [(InvalidType, default_arg ''This field'' l @ '' must be a number'')])
   \<and> (n \<noteq> NaN \<and> \<not> num_less (Fin 0) n \<longrightarrow>
        failures (safeParse (ZNumber (positiveNumber l Omitted)) (JNum n))
          = [(Validation, default_arg ''This field'' l @ '' must be positive'')])
   \<and> (num_less (Fin 0) n \<longrightarrow>
        safeParse (ZNumber (positiveNumber l Omitted)) (JNum n) = SafeParseSuccess (JNum n))
   \<and> map fst (failures (safeParse (ZNumber (positiveNumber l Omitted)) JUndefined)) = [Required]"
  by (cases v; cases n)
     (simp_all add: positiveNumber_def message_defs zod_defs num_le_def Let_def)

text \<open>
  C2, on a missing value: the code does not do what the claim says. \<open>positiveNumber\<close>
  passes no \<open>required_error\<close> to the number schema, which its sibling \<open>requiredNumber\<close>
  does. For the label \<open>Price\<close> the failure of a missing value carries the text of the
  runtime's default error map, \<open>Required\<close>, where \<open>requiredNumber\<close> reports
  \<open>Price is required\<close>; and an override of the required message, given as a string or
  as the \<open>required\<close> entry of a structured override, is lost as well, where
  \<open>requiredNumber\<close> honours it.
\<close>

theorem positiveNumber_missing_value_message:
  "failures (safeParse (ZNumber (positiveNumber (Some ''Price'') Omitted)) JUndefined)
     = [(Required, ''Required'')]
   \<and> failures (safeParse (ZNumber (positiveNumber (Some ''Price'') Omitted)) JUndefined)
     \<noteq> [(Required, ''Price'' @ '' '' @ FIELD_ERRORS_REQUIRED)]
   \<and> failures (safeParse (ZNumber (requiredNumber (Some ''Price'') Omitted)) JUndefined)
     = [(Required, ''Price'' @ '' '' @ FIELD_ERRORS_REQUIRED)]
   \<and> failures (safeParse (ZNumber (positiveNumber (Some ''Price'') (Text ''ov''))) JUndefined)
     = [(Required, ''Required'')]
   \<and> failures (safeParse (ZNumber (requiredNumber (Some ''Price'') (Text ''ov''))) JUndefined)
     = [(Required, ''ov'')]
   \<and> failures (safeParse (ZNumber (positiveNumber (Some ''Price'')
        (Structured \<lparr>required = Some ''r'', invalid = None, validation = None\<rparr>))) JUndefined)
     = [(Required, ''Required'')]
   \<and> failures (safeParse (ZNumber (requiredNumber (Some ''Price'')
        (Structured \<lparr>required = Some ''r'', invalid = None, validation = None\<rparr>))) JUndefined)
     = [(Required, ''r'')]"
  by (simp add: positiveNumber_def requiredNumber_def message_defs zod_defs)

subsection \<open>Values of the wrong primitive type\<close>

lemma invalid_type_string_fragments:
  assumes "getParsedType v \<noteq> PT_undefined" and "getParsedType v \<noteq> PT_string"
  shows "failures (safeParse (ZString (requiredString (Some L) Omitted)) v)
           = [(InvalidType, L @ '' '' @ FIELD_ERRORS_STRING)]"
    and "failures (safeParse (optionalString (Some L) Omitted) v)
           = [(InvalidType, L @ '' '' @ FIELD_ERRORS_STRING)]"
    and "failures (safeParse (ZString (uuid (Some L) Omitted)) v)
           = [(InvalidType, L @ '' '' @ FIELD_ERRORS_STRING)]"
    and "failures (safeParse (optionalUUID (Some L) Omitted) v)
           = [(InvalidType, L @ '' '' @ FIELD_ERRORS_STRING)]"
    and "failures (safeParse (dateString Date_parse (Some L) Omitted) v)
           = [(InvalidType, L @ '' '' @ FIELD_ERRORS_STRING)]"
    and "failures (safeParse (optionalDate Date_parse (Some L) Omitted) v)
           = [(InvalidType, L @ '' '' @ FIELD_ERRORS_STRING)]"
  using assms by (cases v; simp add: fragment_defs message_defs zod_defs)+

lemma invalid_type_number_fragments:
  assumes "getParsedType v \<noteq> PT_undefined" and "getParsedType v \<noteq> PT_number"
  shows "failures (safeParse (ZNumber (requiredNumber (Some L) Omitted)) v)
           = [(InvalidType, L @ '' '' @ FIELD_ERRORS_NUMBER)]"
    and "failures (safeParse (ZNumber (positiveNumber (Some L) Omitted)) v)
           = [(InvalidType, L @ '' '' @ FIELD_ERRORS_NUMBER)]"
    and "failures (safeParse (optionalNumber (Some L) Omitted) v)
           = [(InvalidType, L @ '' '' @ FIELD_ERRORS_NUMBER)]"
  using assms by (cases v; simp add: fragment_defs message_defs zod_defs)+

lemma invalid_type_boolean_fragments:
  assumes "getParsedType v \<noteq> PT_undefined" and "getParsedType v \<noteq> PT_boolean"
  shows "failures (safeParse (boolean (Some L) Omitted) v)
           = [(InvalidType, L @ '' '' @ FIELD_ERRORS_BOOLEAN)]"
    and "failures (safeParse (optionalBoolean (Some L) Omitted) v)
           = [(InvalidType, L @ '' '' @ FIELD_ERRORS_BOOLEAN)]"
  using assms by (cases v; simp add: fragment_defs message_defs zod_defs)+

lemmas composite_defs =
  slug_def emailOrMobile_def requiredStringTrimmed_def emailNormalized_def
  requiredSlugNormalized_def optionalSlugNormalized_def emailOrMobileNormalized_def
  pinCode_def pan_def gstin_def inMobile_def isoDateTime_def dateAfter_def httpsUrl_def
  domain_def imageUrlStrict_def brandedUuid_def z_url_def

lemma invalid_type_string_composites:
  assumes "getParsedType v \<noteq> PT_undefined" and "getParsedType v \<noteq> PT_string"
  shows "failures (safeParse (slug (Some L) Omitted) v)
           = [(InvalidType, L @ '' '' @ FIELD_ERRORS_STRING)]"
    and "failures (safeParse (emailOrMobile (Some L) Omitted) v)
           = [(InvalidType, L @ '' '' @ FIELD_ERRORS_STRING)]"
    and "failures (safeParse (requiredStringTrimmed (Some L) Omitted) v)
           = [(InvalidType, L @ '' '' @ FIELD_ERRORS_STRING)]"
    and "failures (safeParse (emailNormalized (Some L) Omitted) v)
           = [(InvalidType, L @ '' '' @ FIELD_ERRORS_STRING)]"
    and "failures (safeParse (requiredSlugNormalized (Some L) Omitted) v)
           = [(InvalidType, L @ '' '' @ FIELD_ERRORS_STRING)]"
    and "failures (safeParse (optionalSlugNormalized (Some L) Omitted) v)
           = [(InvalidType, L @ '' '' @ FIELD_ERRORS_STRING)]"
    and "failures (safeParse (emailOrMobileNormalized (Some L) Omitted) v)
           = [(InvalidType, L @ '' '' @ FIELD_ERRORS_STRING)]"
    and "failures (safeParse (ZString (pinCode (Some L) Omitted)) v)
           = [(InvalidType, L @ '' '' @ FIELD_ERRORS_STRING)]"
    and "failures (safeParse (pan (Some L) Omitted) v)
           = [(InvalidType, L @ '' '' @ FIELD_ERRORS_STRING)]"
    and "failures (safeParse (gstin (Some L) Omitted) v)
           = [(InvalidType, L @ '' '' @ FIELD_ERRORS_STRING)]"
    and "failures (safeParse (inMobile (Some L) Omitted) v)
           = [(InvalidType, L @ '' '' @ FIELD_ERRORS_STRING)]"
    and "failures (safeParse (isoDateTime Date_parse (Some L) Omitted) v)
           = [(InvalidType, L @ '' '' @ FIELD_ERRORS_STRING)]"
    and "failures (safeParse (dateAfter Date_parse minISO (Some L)) v)
           = [(InvalidType, L @ '' '' @ FIELD_ERRORS_STRING)]"
    and "failures (safeParse (httpsUrl URL_valid (Some L) Omitted) v)
           = [(InvalidType, L @ '' '' @ FIELD_ERRORS_STRING)]"
    and "failures (safeParse (domain (Some L) Omitted) v)
           = [(InvalidType, L @ '' '' @ FIELD_ERRORS_STRING)]"
    and "failures (safeParse (imageUrlStrict URL_valid (Some L)) v)
           = [(InvalidType, L @ '' '' @ FIELD_ERRORS_STRING)]"
    and "failures (safeParse (brandedUuid brand (Some L)) v)
           = [(InvalidType, L @ '' '' @ FIELD_ERRORS_STRING)]"
  using assms
  by (cases v; simp add: composite_defs fragment_defs message_defs zod_defs)+

lemma invalid_type_enum_fragments:
  assumes "getParsedType v \<noteq> PT_undefined" and "getParsedType v \<noteq> PT_string"
  shows "failures (safeParse (Enum options (Some L) Omitted) v)
           = [(InvalidType, L @ '' '' @ FIELD_ERRORS_ENUM @ '' '' @ joinWith '', '' options)]"
    and "failures (safeParse (enumFrom options (Some L) Omitted) v)
           = [(InvalidType, L @ '' '' @ FIELD_ERRORS_ENUM @ '' '' @ joinWith '', '' options)]"
    and "failures (safeParse (enumWithLabels options labels (Some L) Omitted) v)
           = [(InvalidType, L @ '' '' @ FIELD_ERRORS_ENUM @ '' '' @ joinWith '', '' options)]"
  using assms
  by (cases v; simp add: Enum_def enumFrom_def enumWithLabels_def message_defs zod_defs Let_def)+

lemma StringToNumber_abc: "StringToNumber ''abc'' = NaN"
  by (simp add: StringToNumber_def StrDecimalLiteral_def StrUnsignedDecimalLiteral_def
      ExponentPart_def NonDecimalIntegerLiteral_def trim_def is_space_def is_digit_def
      in_range_def Let_def)

text \<open>
  C6, as stated, fails for ten factories of the exposed surface, each here with the label
  it is given and a present value that is not of its base type. The three enum
  factories answer with their unified message. \<open>money\<close>, \<open>fileUrl\<close>, \<open>imageUrl\<close>,
  \<open>optionalNumberCoerce\<close>, \<open>booleanCoerce\<close>, \<open>nonEmptyArrayOf\<close> and \<open>uniqueArrayBy\<close> answer
  with a text of the runtime that holds no label.
\<close>

theorem invalid_type_message_counterexample:
  "failures (safeParse (Enum [''a'', ''b''] (Some ''Role'') Omitted) (JNum (Fin 5)))
     = [(InvalidType, ''Role must be one of: a, b'')]
   \<and> ''Role must be one of: a, b'' \<noteq> ''Role'' @ '' '' @ FIELD_ERRORS_STRING
   \<and> ''Role must be one of: a, b'' \<noteq> ''Role'' @ '' '' @ FIELD_ERRORS_NUMBER
   \<and> ''Role must be one of: a, b'' \<noteq> ''Role'' @ '' '' @ FIELD_ERRORS_BOOLEAN
   \<and> failures (safeParse (enumFrom [''a'', ''b''] (Some ''Role'') Omitted) (JNum (Fin 5)))
     = [(InvalidType, ''Role must be one of: a, b'')]
   \<and> failures (safeParse (enumWithLabels [''a'', ''b''] None (Some ''Role'') Omitted)
        (JNum (Fin 5)))
     = [(InvalidType, ''Role must be one of: a, b'')]
   \<and> failures (safeParse (money (Some ''Amount'') Omitted) (JBool True))
     = [(Validation, ''Invalid input'')]
   \<and> failures (safeParse (fileUrl (\<lambda>s. True) (Some ''File'') Omitted) (JNum (Fin 5)))
     = [(InvalidType, ''Expected string, received number'')]
   \<and> failures (safeParse (imageUrl (\<lambda>s. True) (Some ''Image'') Omitted) (JNum (Fin 5)))
     = [(InvalidType, ''Expected string, received number'')]
   \<and> failures (safeParse (optionalNumberCoerce (\<lambda>v. NaN) (Some ''Count'') Omitted)
        (JStr ''abc''))
     = [(InvalidType, ''Expected number, received nan'')]
   \<and> safeParse (optionalNumberCoerce (\<lambda>v. NaN) (Some ''Count'') Omitted) (JBool True)
     = SafeParseSuccess (JNum (Fin 1))
   \<and> failures (safeParse (booleanCoerce (Some ''Flag'') Omitted) (JStr ''yes''))
     = [(InvalidType, ''Expected boolean, received string'')]
   \<and> failures (safeParse (nonEmptyArrayOf (ZString (requiredString None Omitted))
        (Some ''Items'')) (JStr ''x''))
     = [(InvalidType, ''Expected array, received string'')]
   \<and> failures (safeParse (uniqueArrayBy (\<lambda>key xs. True) (ZString (requiredString None Omitted))
        ''id'' (Some ''Rows'')) (JStr ''x''))
     = [(InvalidType, ''Expected array, received string'')]"
  by (simp add: Enum_def enumFrom_def enumWithLabels_def money_def fileUrl_def imageUrl_def
      optionalNumberCoerce_def coerceNumber_def Number_of_def booleanCoerce_def
      coerceBoolean_def nonEmptyArrayOf_def uniqueArrayBy_def optionalNumber_def boolean_def
      z_preprocess_def z_pipe_def z_array_def z_url_def StringToNumber_abc
      message_defs zod_defs)

text \<open>
  C6, amended. For each factory of the exposed surface that builds on a string, number or
  boolean schema given the catalog text for a wrong type, and every label \<open>L\<close>: the
  fragment built with no override, applied to a present value that is not of its base
  type (for a number fragment \<open>NaN\<close> is not a number), yields exactly one failure, of
  class \<open>InvalidType\<close>, whose message is \<open>L\<close>, a space and the catalog text of the base
  type. These are, with base type string and text \<open>must be a string\<close>: \<open>requiredString\<close>,
  \<open>optionalString\<close>, \<open>uuid\<close>, \<open>optionalUUID\<close>, \<open>dateString\<close>, \<open>optionalDate\<close>, \<open>slug\<close>,
  \<open>emailOrMobile\<close>, \<open>requiredStringTrimmed\<close>, \<open>emailNormalized\<close>,
  \<open>requiredSlugNormalized\<close>, \<open>optionalSlugNormalized\<close>, \<open>emailOrMobileNormalized\<close>,
  \<open>pinCode\<close>, \<open>pan\<close>, \<open>gstin\<close>, \<open>inMobile\<close>, \<open>isoDateTime\<close>, \<open>dateAfter\<close>, \<open>httpsUrl\<close>,
  \<open>domain\<close>, \<open>imageUrlStrict\<close> and \<open>brandedUuid\<close>; with base type number and text
  \<open>must be a number\<close>: \<open>requiredNumber\<close>, \<open>positiveNumber\<close> and \<open>optionalNumber\<close>; with
  base type boolean and text \<open>must be a boolean\<close>: \<open>boolean\<close> and \<open>optionalBoolean\<close>.
  The enum factories \<open>Enum\<close>, \<open>enumFrom\<close> and \<open>enumWithLabels\<close> yield, on a present value
  that is not a string, exactly one failure, whose message is their unified message:
  \<open>L\<close>, \<open>must be one of:\<close> and the options joined by a comma and a space.
  Nothing is stated of \<open>money\<close>, \<open>fileUrl\<close>, \<open>imageUrl\<close>, \<open>optionalNumberCoerce\<close>,
  \<open>booleanCoerce\<close>, \<open>nonEmptyArrayOf\<close> and \<open>uniqueArrayBy\<close>.
\<close>

theorem fragment_factories_invalid_type:
  assumes "getParsedType v \<noteq> PT_undefined"
  shows "(getParsedType v \<noteq> PT_string \<longrightarrow>
            failures (safeParse (ZString (requiredString (Some L) Omitted)) v)
              = [(InvalidType, L @ '' '' @ FIELD_ERRORS_STRING)]
          \<and> failures (safeParse (optionalString (Some L) Omitted) v)
              = [(InvalidType, L @ '' '' @ FIELD_ERRORS_STRING)]
          \<and> failures (safeParse (ZString (uuid (Some L) Omitted)) v)
              = [(InvalidType, L @ '' '' @ FIELD_ERRORS_STRING)]
          \<and> failures (safeParse (optionalUUID (Some L) Omitted) v)
              = [(InvalidType, L @ '' '' @ FIELD_ERRORS_STRING)]
          \<and> failures (safeParse (dateString Date_parse (Some L) Omitted) v)
              = [(InvalidType, L @ '' '' @ FIELD_ERRORS_STRING)]
          \<and> failures (safeParse (optionalDate Date_parse (Some L) Omitted) v)
              = [(InvalidType, L @ '' '' @ FIELD_ERRORS_STRING)]
          \<and> failures (safeParse (slug (Some L) Omitted) v)
              = [(InvalidType, L @ '' '' @ FIELD_ERRORS_STRING)]
          \<and> failures (safeParse (emailOrMobile (Some L) Omitted) v)
              = [(InvalidType, L @ '' '' @ FIELD_ERRORS_STRING)]
          \<and> failures (safeParse (requiredStringTrimmed (Some L) Omitted) v)
              = [(InvalidType, L @ '' '' @ FIELD_ERRORS_STRING)]
          \<and> failures (safeParse (emailNormalized (Some L) Omitted) v)
              = [(InvalidType, L @ '' '' @ FIELD_ERRORS_STRING)]
          \<and> failures (safeParse (requiredSlugNormalized (Some L) Omitted) v)
              = [(InvalidType, L @ '' '' @ FIELD_ERRORS_STRING)]
          \<and> failures (safeParse (optionalSlugNormalized (Some L) Omitted) v)
              = [(InvalidType, L @ '' '' @ FIELD_ERRORS_STRING)]
          \<and> failures (safeParse (emailOrMobileNormalized (Some L) Omitted) v)
              = [(InvalidType, L @ '' '' @ FIELD_ERRORS_STRING)]
          \<and> failures (safeParse (ZString (pinCode (Some L) Omitted)) v)
              = [(InvalidType, L @ '' '' @ FIELD_ERRORS_STRING)]
          \<and> failures (safeParse (pan (Some L) Omitted) v)
              = [(InvalidType, L @ '' '' @ FIELD_ERRORS_STRING)]
          \<and> failures (safeParse (gstin (Some L) Omitted) v)
              = [(InvalidType, L @ '' '' @ FIELD_ERRORS_STRING)]
          \<and> failures (safeParse (inMobile (Some L) Omitted) v)
              = [(InvalidType, L @ '' '' @ FIELD_ERRORS_STRING)]
          \<and> failures (safeParse (isoDateTime Date_parse (Some L) Omitted) v)
              = [(InvalidType, L @ '' '' @ FIELD_ERRORS_STRING)]
          \<and> failures (safeParse (dateAfter Date_parse minISO (Some L)) v)
              = [(InvalidType, L @ '' '' @ FIELD_ERRORS_STRING)]
          \<and> failures (safeParse (httpsUrl URL_valid (Some L) Omitted) v)
              = [(InvalidType, L @ '' '' @ FIELD_ERRORS_STRING)]
          \<and> failures (safeParse (domain (Some L) Omitted) v)
              = [(InvalidType, L @ '' '' @ FIELD_ERRORS_STRING)]
          \<and> failures (safeParse (imageUrlStrict URL_valid (Some L)) v)
              = [(InvalidType, L @ '' '' @ FIELD_ERRORS_STRING)]
          \<and> failures (safeParse (brandedUuid brand (Some L)) v)
              = [(InvalidType, L @ '' '' @ FIELD_ERRORS_STRING)]
          \<and> failures (safeParse (Enum options (Some L) Omitted) v)
              = [(InvalidType, L @ '' '' @ FIELD_ERRORS_ENUM @ '' '' @ joinWith '', '' options)]
          \<and> failures (safeParse (enumFrom options (Some L) Omitted) v)
              = [(InvalidType, L @ '' '' @ FIELD_ERRORS_ENUM @ '' '' @ joinWith '', '' options)]
          \<and> failures (safeParse (enumWithLabels options labels (Some L) Omitted) v)
              = [(InvalidType, L @ '' '' @ FIELD_ERRORS_ENUM @ '' '' @ joinWith '', '' options)])
       \<and> (getParsedType v \<noteq> PT_number \<longrightarrow>
            failures (safeParse (ZNumber (requiredNumber (Some L) Omitted)) v)
              = [(InvalidType, L @ '' '' @ FIELD_ERRORS_NUMBER)]
          \<and> failures (safeParse (ZNumber (positiveNumber (Some L) Omitted)) v)
              = [(InvalidType, L @ '' '' @ FIELD_ERRORS_NUMBER)]
          \<and> failures (safeParse (optionalNumber (Some L) Omitted) v)
              = [(InvalidType, L @ '' '' @ FIELD_ERRORS_NUMBER)])
       \<and> (getParsedType v \<noteq> PT_boolean \<longrightarrow>
            failures (safeParse (boolean (Some L) Omitted) v)
              = [(InvalidType, L @ '' '' @ FIELD_ERRORS_BOOLEAN)]
          \<and> failures (safeParse (optionalBoolean (Some L) Omitted) v)
              = [(InvalidType, L @ '' '' @ FIELD_ERRORS_BOOLEAN)])"
  using assms
  by (simp add: invalid_type_string_fragments invalid_type_string_composites
      invalid_type_enum_fragments invalid_type_number_fragments
      invalid_type_boolean_fragments)

theorem fragment_factories_invalid_type_witness:
  "failures (safeParse (ZString (requiredString (Some ''Name'') Omitted)) JNull)
     = [(InvalidType, ''Name must be a string'')]
   \<and> failures (safeParse (optionalUUID (Some ''Name'') Omitted) JNull)
     = [(InvalidType, ''Name must be a string'')]
   \<and> failures (safeParse (emailOrMobileNormalized (Some ''Name'') Omitted) JNull)
     = [(InvalidType, ''Name must be a string'')]
   \<and> failures (safeParse (imageUrlStrict (\<lambda>s. True) (Some ''Name'')) JNull)
     = [(InvalidType, ''Name must be a string'')]
   \<and> failures (safeParse (Enum [''a'', ''b''] (Some ''Name'') Omitted) JNull)
     = [(InvalidType, ''Name must be one of: a, b'')]
   \<and> failures (safeParse (ZNumber (requiredNumber (Some ''Name'') Omitted)) JNull)
     = [(InvalidType, ''Name must be a number'')]
   \<and> failures (safeParse (optionalBoolean (Some ''Name'') Omitted) JNull)
     = [(InvalidType, ''Name must be a boolean'')]"
  using fragment_factories_invalid_type
    [of JNull "''Name''" "\<lambda>s. NaN" "''2024-01-01''" "\<lambda>s. True" "''Id''" "[''a'', ''b'']" None]
  by (simp add: message_defs)

subsection \<open>Optional fragments\<close>

lemma optional_undefined:
  "safeParse (optionalString l msg) JUndefined = SafeParseSuccess JUndefined"
  "safeParse (optionalNumber l msg) JUndefined = SafeParseSuccess JUndefined"
  "safeParse (optionalBoolean l msg) JUndefined = SafeParseSuccess JUndefined"
  "safeParse (optionalUUID l msg) JUndefined = SafeParseSuccess JUndefined"
  "safeParse (optionalDate Date_parse l msg) JUndefined = SafeParseSuccess JUndefined"
  by (simp_all add: fragment_defs zod_defs)

lemma optional_never_required:
  "Required \<notin> fst ` set (failures (safeParse (optionalString l msg) v))"
  "Required \<notin> fst ` set (failures (safeParse (optionalNumber l msg) v))"
  "Required \<notin> fst ` set (failures (safeParse (optionalBoolean l msg) v))"
  "Required \<notin> fst ` set (failures (safeParse (optionalUUID l msg) v))"
  "Required \<notin> fst ` set (failures (safeParse (optionalDate Date_parse l msg) v))"
  by (cases v; simp add: fragment_defs zod_defs)+

lemma optional_plain_present:
  "getParsedType v = PT_string \<Longrightarrow> safeParse (optionalString l msg) v = SafeParseSuccess v"
  "getParsedType v = PT_number \<Longrightarrow> safeParse (optionalNumber l msg) v = SafeParseSuccess v"
  "getParsedType v = PT_boolean \<Longrightarrow> safeParse (optionalBoolean l msg) v = SafeParseSuccess v"
  by (cases v; simp add: fragment_defs zod_defs split: if_splits)+

lemma optional_wrong_type:
  "getParsedType v \<noteq> PT_undefined \<Longrightarrow> getParsedType v \<noteq> PT_string \<Longrightarrow>
     map fst (failures (safeParse (optionalString l msg) v)) = [InvalidType]"
  "getParsedType v \<noteq> PT_undefined \<Longrightarrow> getParsedType v \<noteq> PT_number \<Longrightarrow>
     map fst (failures (safeParse (optionalNumber l msg) v)) = [InvalidType]"
  "getParsedType v \<noteq> PT_undefined \<Longrightarrow> getParsedType v \<noteq> PT_boolean \<Longrightarrow>
     map fst (failures (safeParse (optionalBoolean l msg) v)) = [InvalidType]"
  "getParsedType v \<noteq> PT_undefined \<Longrightarrow> getParsedType v \<noteq> PT_string \<Longrightarrow>
     map fst (failures (safeParse (optionalUUID l msg) v)) = [InvalidType]"
  "getParsedType v \<noteq> PT_undefined \<Longrightarrow> getParsedType v \<noteq> PT_string \<Longrightarrow>
     map fst (failures (safeParse (optionalDate Date_parse l msg) v)) = [InvalidType]"
  by (cases v; simp add: fragment_defs zod_defs)+

lemma optional_format_checked:
  "matches uuidRegex s \<Longrightarrow>
     safeParse (optionalUUID l msg) (JStr s) = SafeParseSuccess (JStr s)"
  "\<not> matches uuidRegex s \<Longrightarrow>
     map fst (failures (safeParse (optionalUUID l msg) (JStr s))) = [Validation]"
  "\<not> isNaN (Date_parse s) \<Longrightarrow>
     safeParse (optionalDate Date_parse l msg) (JStr s) = SafeParseSuccess (JStr s)"
  "isNaN (Date_parse s) \<Longrightarrow>
     map fst (failures (safeParse (optionalDate Date_parse l msg) (JStr s))) = [Validation]"
  by (simp_all add: fragment_defs zod_defs)

lemma uuid_examples:
  "matches uuidRegex ''123e4567-e89b-12d3-a456-426614174000''"
  "\<not> matches uuidRegex ''x''"
  "\<not> matches uuidRegex ''abc''"
  by code_simp+

text \<open>
  C8, as stated, fails: on a present value \<open>optionalUUID\<close> checks more than the type. The
  string \<open>abc\<close> is of the right type and is rejected with a failure of class
  \<open>Validation\<close>.
\<close>

theorem optionalUUID_format_counterexample:
  "getParsedType (JStr ''abc'') = PT_string
   \<and> failures (safeParse (optionalUUID None Omitted) (JStr ''abc''))
     = [(Validation, ''ID must be a valid UUID'')]"
  by (simp add: fragment_defs message_defs zod_defs uuid_examples del: matches.simps)

text \<open>
  C8, amended. For each of \<open>optionalString\<close>, \<open>optionalNumber\<close>, \<open>optionalBoolean\<close>,
  \<open>optionalUUID\<close> and \<open>optionalDate\<close>, every label and every override: an undefined
  input is accepted and passes through as undefined, and no input at all yields a
  failure of class \<open>Required\<close>. On a present value, \<open>optionalString\<close>, \<open>optionalNumber\<close>
  and \<open>optionalBoolean\<close> check the type only: a value of the base type is accepted
  unchanged, any other present value yields exactly one failure, of class
  \<open>InvalidType\<close>. \<open>optionalUUID\<close> and \<open>optionalDate\<close> yield exactly one \<open>InvalidType\<close>
  failure on a present value that is not a string, and on a string they check the
  format as well: the string is accepted unchanged when it has the UUID format
  (when the host parses it as a date), and yields exactly one failure of class
  \<open>Validation\<close> otherwise.
\<close>

theorem optional_fragments_checks:
  "safeParse (optionalString l msg) JUndefined = SafeParseSuccess JUndefined
   \<and> safeParse (optionalNumber l msg) JUndefined = SafeParseSuccess JUndefined
   \<and> safeParse (optionalBoolean l msg) JUndefined = SafeParseSuccess JUndefined
   \<and> safeParse (optionalUUID l msg) JUndefined = SafeParseSuccess JUndefined
   \<and> safeParse (optionalDate Date_parse l msg) JUndefined = SafeParseSuccess JUndefined
   \<and> Required \<notin> fst ` set (failures (safeParse (optionalString l msg) v))
   \<and> Required \<notin> fst ` set (failures (safeParse (optionalNumber l msg) v))
   \<and> Required \<notin> fst ` set (failures (safeParse (optionalBoolean l msg) v))
   \<and> Required \<notin> fst ` set (failures (safeParse (optionalUUID l msg) v))
   \<and> Required \<notin> fst ` set (failures (safeParse (optionalDate Date_parse l msg) v))
   \<and> (getParsedType v = PT_string \<longrightarrow>
        safeParse (optionalString l msg) v = SafeParseSuccess v)
   \<and> (getParsedType v = PT_number \<longrightarrow>
        safeParse (optionalNumber l msg) v = SafeParseSuccess v)
   \<and> (getParsedType v = PT_boolean \<longrightarrow>
        safeParse (optionalBoolean l msg) v = SafeParseSuccess v)
   \<and> (getParsedType v \<noteq> PT_undefined \<and> getParsedType v \<noteq> PT_string \<longrightarrow>
        map fst (failures (safeParse (optionalString l msg) v)) = [InvalidType]
      \<and> map fst (failures (safeParse (optionalUUID l msg) v)) = [InvalidType]
      \<and> map fst (failures (safeParse (optionalDate Date_parse l msg) v)) = [InvalidType])
   \<and> (getParsedType v \<noteq> PT_undefined \<and> getParsedType v \<noteq> PT_number \<longrightarrow>
        map fst (failures (safeParse (optionalNumber l msg) v)) = [InvalidType])
   \<and> (getParsedType v \<noteq> PT_undefined \<and> getParsedType v \<noteq> PT_boolean \<longrightarrow>
        map fst (failures (safeParse (optionalBoolean l msg) v)) = [InvalidType])
   \<and> (matches uuidRegex s \<longrightarrow>
        safeParse (optionalUUID l msg) (JStr s) = SafeParseSuccess (JStr s))
   \<and> (\<not> matches uuidRegex s \<longrightarrow>
        map fst (failures (safeParse (optionalUUID l msg) (JStr s))) = [Validation])
   \<and> (\<not> isNaN (Date_parse s) \<longrightarrow>
        safeParse (optionalDate Date_parse l msg) (JStr s) = SafeParseSuccess (JStr s))
   \<and> (isNaN (Date_parse s) \<longrightarrow>
        map fst (failures (safeParse (optionalDate Date_parse l msg) (JStr s))) = [Validation])"
  by (simp add: optional_undefined optional_never_required optional_plain_present
      optional_wrong_type optional_format_checked)

theorem optional_fragments_checks_witness:
  "safeParse (optionalString (Some ''Bio'') Omitted) (JStr ''x'') = SafeParseSuccess (JStr ''x'')
   \<and> map fst (failures (safeParse (optionalNumber (Some ''Bio'') Omitted) (JStr ''x'')))
     = [InvalidType]
   \<and> map fst (failures (safeParse (optionalBoolean (Some ''Bio'') Omitted) (JStr ''x'')))
     = [InvalidType]
   \<and> map fst (failures (safeParse (optionalUUID (Some ''Bio'') Omitted) (JStr ''x'')))
     = [Validation]
   \<and> map fst (failures (safeParse (optionalDate (\<lambda>s. NaN) (Some ''Bio'') Omitted) (JStr ''x'')))
     = [Validation]
   \<and> safeParse (optionalNumber (Some ''Bio'') Omitted) (JNum (Fin 2))
     = SafeParseSuccess (JNum (Fin 2))
   \<and> map fst (failures (safeParse (optionalString (Some ''Bio'') Omitted) (JNum (Fin 2))))
     = [InvalidType]
   \<and> safeParse (optionalDate (\<lambda>s. Fin 0) (Some ''Bio'') Omitted) (JStr ''x'')
     = SafeParseSuccess (JStr ''x'')
   \<and> safeParse (optionalBoolean (Some ''Bio'') Omitted) (JBool True)
     = SafeParseSuccess (JBool True)
   \<and> safeParse (optionalUUID (Some ''Bio'') Omitted)
       (JStr ''123e4567-e89b-12d3-a456-426614174000'')
     = SafeParseSuccess (JStr ''123e4567-e89b-12d3-a456-426614174000'')"
  using optional_fragments_checks [of "Some ''Bio''" Omitted "\<lambda>s. NaN" "JStr ''x''" "''x''"]
    optional_fragments_checks [of "Some ''Bio''" Omitted "\<lambda>s. Fin 0" "JNum (Fin 2)" "''x''"]
    optional_fragments_checks [of "Some ''Bio''" Omitted "\<lambda>s. Fin 0" "JBool True"
      "''123e4567-e89b-12d3-a456-426614174000''"]
  by (simp add: isNaN_def uuid_examples del: matches.simps)

subsection \<open>Matching of the patterns\<close>

lemma matches_Nothing: "matches Nothing s = False"
  by (induction s) simp_all

lemma matches_Empty: "matches Empty s = (s = [])"
  by (cases s) (simp_all add: matches_Nothing)

lemma matches_Seq_Nothing: "matches (Seq Nothing r) s = False"
  by (induction s) simp_all

lemma matches_Alt: "matches (Alt r1 r2) s = (matches r1 s \<or> matches r2 s)"
  by (induction s arbitrary: r1 r2) simp_all

lemma matches_Seq_Empty: "matches (Seq Empty r) s = matches r s"
  by (cases s) (simp_all add: matches_Alt matches_Seq_Nothing)

lemma matches_Seq_Class:
  "matches (Seq (Class p) r) s = (case s of [] \<Rightarrow> False | c # cs \<Rightarrow> p c \<and> matches r cs)"
  by (cases s) (simp_all add: matches_Seq_Empty matches_Seq_Nothing)

lemma matches_Times_Class:
  "matches (Times n (Class p)) s = (length s = n \<and> list_all p s)"
proof (induction n arbitrary: s)
  case 0
  show ?case by (auto simp add: matches_Empty)
next
  case (Suc n)
  show ?case by (cases s) (auto simp add: matches_Seq_Empty matches_Seq_Nothing Suc)
qed

lemma mobileRegex_iff:
  "matches mobileRegex s =
     (length s = 10 \<and> in_range CHR ''6'' CHR ''9'' (hd s) \<and> list_all is_digit s)"
  by (auto simp add: mobileRegex_def matches_Seq_Class matches_Times_Class
      is_digit_def in_range_def split: list.splits)

text \<open>The patterns of the composite fragments, each on a text it holds for or fails on.\<close>

lemma pattern_examples:
  "matches slugRegex ''my-post-1''"
  "\<not> matches slugRegex ''My Post''"
  "matches slugSpaceRegex ''my post''"
  "matches pinRegex ''560001''"
  "\<not> matches pinRegex ''56001''"
  "matches panRegex ''abcde1234f''"
  "matches panRegex ''ABCDE1234F''"
  "\<not> matches panRegex ''abcd1234f''"
  "matches gstinRegex ''22aaaaa0000a1z5''"
  "\<not> matches gstinRegex ''22AAAAA0000A1Z5''"
  "matches domainRegex ''a-b.example.com''"
  "\<not> matches domainRegex ''example''"
  "matches imageExtensionRegex ''a.PNG''"
  "matches imageExtensionRegex ''a.jpeg?w=1''"
  "\<not> matches imageExtensionRegex ''a.png/b''"
  "matches tenDigitsRegex ''0123456789''"
  by code_simp+

subsection \<open>Coercion, arrays and labelled enums\<close>

text \<open>
  The composite fragments on accepted and rejected inputs: a coerced boolean, an array
  with too few elements and with failing elements, the labelled output of
  \<open>enumWithLabels\<close>, and the refinement of \<open>httpsUrl\<close>.
\<close>

lemma composite_examples:
  "safeParse (booleanCoerce None Omitted) (JStr ''true'') = SafeParseSuccess (JBool True)"
  "safeParse (booleanCoerce None Omitted) (JNum (Fin 0)) = SafeParseSuccess (JBool False)"
  "failures (safeParse (nonEmptyArrayOf (ZString (requiredString None Omitted)) None) (JArr []))
     = [(Validation, ''Items must contain at least 1 item'')]"
  "safeParse (nonEmptyArrayOf (ZString (requiredString None Omitted)) None) (JArr [JStr ''a''])
     = SafeParseSuccess (JArr [JStr ''a''])"
  "failures (safeParse (nonEmptyArrayOf (ZString (requiredString (Some ''Tag'') Omitted)) None)
       (JArr [JStr ''a'', JStr [], JNum (Fin 1)]))
     = [(Validation, ''Tag is required''), (InvalidType, ''Tag must be a string'')]"
  "safeParse (enumWithLabels [''a'', ''b''] (Some [''a'' \<mapsto> ''Alpha'']) None Omitted) (JStr ''a'')
     = SafeParseSuccess (JObj [(''value'', JStr ''a''), (''label'', JStr ''Alpha'')])"
  "safeParse (enumWithLabels [''a'', ''b''] None None Omitted) (JStr ''b'')
     = SafeParseSuccess (JObj [(''value'', JStr ''b''), (''label'', JStr ''b'')])"
  "failures (safeParse (httpsUrl (\<lambda>s. True) None Omitted) (JStr ''http://x.org''))
     = [(Validation, ''URL must use https'')]"
  by (simp_all add: booleanCoerce_def coerceBoolean_def boolean_def nonEmptyArrayOf_def
      enumWithLabels_def httpsUrl_def requiredString_def z_preprocess_def z_pipe_def
      z_array_def z_url_def string_fun_def string_pred_def startsWith_def
      message_defs zod_defs Let_def)

subsection \<open>\<open>emailOrMobileNormalized\<close>\<close>

lemma emailOrMobileNormalized_string:
  "safeParse (emailOrMobileNormalized l Omitted) (JStr s) =
     (let raw = normalize_identifier s
      in if matches emailRegex raw
         then SafeParseSuccess
                (JObj [(''type'', JStr ''email''), (''value'', JStr (toLowerCase raw))])
         else if matches mobileRegex raw
         then SafeParseSuccess (JObj [(''type'', JStr ''mobile''), (''value'', JStr raw)])
         else SafeParseError [\<lparr>code = custom,
                message = default_arg ''Identifier'' l @ '' must be a valid email or mobile''\<rparr>])"
  by (simp add: emailOrMobileNormalized_def normalize_identifier_def string_fun_def
      string_pred_def message_defs zod_defs Let_def)

lemma normalize_identifier_examples:
  "normalize_identifier '' +91 98765-43210 '' = ''9876543210''"
  "normalize_identifier ''A@B.com'' = ''A@B.com''"
  "normalize_identifier ''12345'' = ''12345''"
  by (simp_all add: normalize_identifier_def string_eval)

lemma identifier_pattern_examples:
  "\<not> matches emailRegex ''9876543210''"
  "matches mobileRegex ''9876543210''"
  "matches emailRegex ''A@B.com''"
  "\<not> matches emailRegex ''12345''"
  "\<not> matches mobileRegex ''12345''"
  "toLowerCase ''A@B.com'' = ''a@b.com''"
  by code_simp+

text \<open>
  C4. \<open>emailOrMobileNormalized()\<close> accepts \<open>" +91 98765-43210 "\<close> with the output
  \<open>{type: "mobile", value: "9876543210"}\<close>, accepts \<open>"A@B.com"\<close> with the output
  \<open>{type: "email", value: "a@b.com"}\<close> and rejects \<open>"12345"\<close>. For every input string,
  with \<open>raw\<close> the input trimmed, stripped of white space and hyphens and of a leading
  \<open>+91\<close>: when \<open>raw\<close> matches the email pattern the output is tagged \<open>email\<close> and
  holds \<open>raw\<close> in lower case; otherwise, when \<open>raw\<close> matches the mobile pattern, the
  output is tagged \<open>mobile\<close> and holds \<open>raw\<close>; otherwise the input is rejected. The
  mobile pattern holds exactly for ten digits of which the first is from 6 to 9.
\<close>

theorem emailOrMobileNormalized_tagged:
  "safeParse (emailOrMobileNormalized None Omitted) (JStr '' +91 98765-43210 '')
     = SafeParseSuccess (JObj [(''type'', JStr ''mobile''), (''value'', JStr ''9876543210'')])
   \<and> safeParse (emailOrMobileNormalized None Omitted) (JStr ''A@B.com'')
     = SafeParseSuccess (JObj [(''type'', JStr ''email''), (''value'', JStr ''a@b.com'')])
   \<and> failures (safeParse (emailOrMobileNormalized None Omitted) (JStr ''12345''))
     = [(Validation, ''Identifier must be a valid email or mobile'')]
   \<and> safeParse (emailOrMobileNormalized l Omitted) (JStr s)
     = (let raw = normalize_identifier s
        in if matches emailRegex raw
           then SafeParseSuccess
                  (JObj [(''type'', JStr ''email''), (''value'', JStr (toLowerCase raw))])
           else if matches mobileRegex raw
           then SafeParseSuccess (JObj [(''type'', JStr ''mobile''), (''value'', JStr raw)])
           else SafeParseError [\<lparr>code = custom,
                  message = default_arg ''Identifier'' l @ '' must be a valid email or mobile''\<rparr>])
   \<and> matches mobileRegex r
     = (length r = 10 \<and> in_range CHR ''6'' CHR ''9'' (hd r) \<and> list_all is_digit r)"
proof -
  have examples:
    "safeParse (emailOrMobileNormalized None Omitted) (JStr '' +91 98765-43210 '')
       = SafeParseSuccess (JObj [(''type'', JStr ''mobile''), (''value'', JStr ''9876543210'')])"
    "safeParse (emailOrMobileNormalized None Omitted) (JStr ''A@B.com'')
       = SafeParseSuccess (JObj [(''type'', JStr ''email''), (''value'', JStr ''a@b.com'')])"
    "failures (safeParse (emailOrMobileNormalized None Omitted) (JStr ''12345''))
       = [(Validation, ''Identifier must be a valid email or mobile'')]"
    by (simp_all add: emailOrMobileNormalized_string normalize_identifier_examples
        identifier_pattern_examples failure_class_def default_arg_def del: matches.simps)
  show ?thesis
    by (intro conjI examples emailOrMobileNormalized_string mobileRegex_iff)
qed

subsection \<open>The rounding of doubles\<close>

text \<open>
  \<open>ilog2\<close> is the binary exponent of its argument, and a finite result of \<open>to_double\<close>
  lies within half a unit in the last place of the exact value.
\<close>

lemma bit_length_bounds:
  "0 < n \<Longrightarrow> 2 ^ (bit_length n - 1) \<le> n \<and> n < 2 ^ bit_length n"
proof (induction n rule: bit_length.induct)
  case (1 n)
  show ?case
  proof (cases "n div 2 = 0")
    case True
    with "1.prems" have "n = 1" by arith
    then show ?thesis by (simp add: bit_length.simps)
  next
    case False
    then have pos: "0 < n div 2" by simp
    with "1.prems" have n0: "n \<noteq> 0" by simp
    from "1.IH" [OF n0 pos]
    have lo: "2 ^ (bit_length (n div 2) - 1) \<le> n div 2" and hi: "n div 2 < 2 ^ bit_length (n div 2)"
      by simp_all
    have b: "bit_length n = Suc (bit_length (n div 2))"
      using n0 by (subst bit_length.simps) simp
    have b1: "0 < bit_length (n div 2)"
      using pos by (subst bit_length.simps) simp
    from lo have "2 * 2 ^ (bit_length (n div 2) - 1) \<le> n" by simp
    moreover have "2 * 2 ^ (bit_length (n div 2) - 1) = (2::nat) ^ bit_length (n div 2)"
      using b1 by (cases "bit_length (n div 2)") simp_all
    moreover from hi have "n < 2 * 2 ^ bit_length (n div 2)" by simp
    ultimately show ?thesis by (simp add: b)
  qed
qed


lemma ilog2_bounds:
  assumes "0 < a"
  shows "pow2 (ilog2 a) \<le> a \<and> a < pow2 (ilog2 a + 1)"
proof (cases "1 \<le> a")
  case True
  define n where "n = nat \<lfloor>a\<rfloor>"
  from True have fl: "1 \<le> \<lfloor>a\<rfloor>" by simp
  then have n: "0 < n" and nf: "int n = \<lfloor>a\<rfloor>" by (simp_all add: n_def)
  define b where "b = bit_length n"
  from bit_length_bounds [OF n] have lo: "2 ^ (b - 1) \<le> n" and hi: "n < 2 ^ b"
    by (simp_all add: b_def)
  from hi have b0: "0 < b" using n by (cases b) simp_all
  have e: "ilog2 a = int b - 1" using True by (simp add: ilog2_def b_def n_def)
  have na: "(of_nat n :: rat) \<le> a"
    using of_int_floor_le [of a] by (simp add: nf [symmetric])
  from lo have "(of_nat (2 ^ (b - 1)) :: rat) \<le> of_nat n"
    by (simp only: of_nat_le_iff)
  then have "(2 ^ (b - 1) :: rat) \<le> of_nat n" by simp
  from this na have l: "2 ^ (b - 1) \<le> a" by (rule order_trans)
  from hi have "n + 1 \<le> 2 ^ b" by simp
  then have "(of_nat (n + 1) :: rat) \<le> of_nat (2 ^ b)"
    by (simp only: of_nat_le_iff)
  then have nb: "(of_nat (n + 1) :: rat) \<le> 2 ^ b" by simp
  have "a < of_int (\<lfloor>a\<rfloor> + 1)"
    using floor_correct [of a] by simp
  also have "of_int (\<lfloor>a\<rfloor> + 1) = (of_nat (n + 1) :: rat)"
    by (simp add: nf [symmetric])
  finally have "a < of_nat (n + 1)" .
  from this nb have u: "a < 2 ^ b" by (rule less_le_trans)
  from b0 have "nat (int b - 1) = b - 1" and "nat (int b - 1 + 1) = b" by simp_all
  with l u b0 show ?thesis by (simp add: e pow2_def)
next
  case False
  with assms have lt: "a < 1" by simp
  define c where "c = \<lceil>1 / a\<rceil>"
  from assms lt have "1 < 1 / a" by simp
  then have c2: "2 \<le> c" unfolding c_def by (simp add: le_ceiling_iff)
  define m where "m = nat (c - 1)"
  from c2 have m: "0 < m" and mc: "int m = c - 1" by (simp_all add: m_def)
  define k where "k = bit_length m"
  from bit_length_bounds [OF m] have lo: "2 ^ (k - 1) \<le> m" and hi: "m < 2 ^ k"
    by (simp_all add: k_def)
  from hi have k0: "0 < k" using m by (cases k) simp_all
  have e: "ilog2 a = - int k" using False by (simp add: ilog2_def k_def m_def c_def)
  from hi have "Suc m \<le> 2 ^ k" by simp
  then have "int (Suc m) \<le> int (2 ^ k)" by (simp only: of_nat_le_iff)
  then have "int m + 1 \<le> 2 ^ k" by simp
  with mc have "c \<le> 2 ^ k" by simp
  then have "(of_int c :: rat) \<le> of_int (2 ^ k)" by (simp only: of_int_le_iff)
  then have ck: "(of_int c :: rat) \<le> 2 ^ k" by simp
  have "1 / a \<le> of_int c" by (simp add: c_def)
  from this ck have "1 / a \<le> 2 ^ k" by (rule order_trans)
  with assms have l: "1 / 2 ^ k \<le> a"
    by (simp add: field_simps)
  from lo have "int (2 ^ (k - 1)) \<le> int m" by (simp only: of_nat_le_iff)
  with mc have "2 ^ (k - 1) \<le> c - 1" by simp
  then have "(of_int (2 ^ (k - 1)) :: rat) \<le> of_int (c - 1)" by (simp only: of_int_le_iff)
  then have kc: "(2 ^ (k - 1) :: rat) \<le> of_int (c - 1)" by simp
  have "of_int (c - 1) < 1 / a" unfolding c_def using ceiling_correct [of "1 / a"] by simp
  with kc have "(2 ^ (k - 1) :: rat) < 1 / a" by (rule le_less_trans)
  with assms have u0: "a < 1 / 2 ^ (k - 1)"
    by (simp add: field_simps)
  have u: "a < pow2 (- int k + 1)"
  proof (cases "k = 1")
    case True
    with u0 show ?thesis by (simp add: pow2_def)
  next
    case False
    with k0 have "nat (int k - 1) = k - 1" and "\<not> 0 \<le> - int k + 1" by simp_all
    with u0 show ?thesis by (simp add: pow2_def)
  qed
  from k0 l have "pow2 (- int k) \<le> a" by (simp add: pow2_def)
  with u show ?thesis by (simp add: e)
qed


lemma round_half_even_error: "\<bar>of_int (round_half_even x) - x\<bar> \<le> 1 / 2"
proof -
  define f where "f = \<lfloor>x\<rfloor>"
  have "of_int f \<le> x" and "x < of_int f + 1"
    using floor_correct [of x] by (simp_all add: f_def)
  then show ?thesis
    unfolding round_half_even_def Let_def f_def [symmetric]
    by (auto simp add: abs_if)
qed

lemma to_double_error:
  assumes "to_double q = Fin r"
  shows "\<bar>r - q\<bar> \<le> pow2 (max (ilog2 \<bar>q\<bar>) (- 1022) - 52) / 2"
proof (cases "q = 0")
  case True
  with assms show ?thesis by (simp add: to_double_def pow2_def)
next
  case False
  define ulp where "ulp = pow2 (max (ilog2 \<bar>q\<bar>) (- 1022) - 52)"
  define m where "m = round_half_even (\<bar>q\<bar> / ulp)"
  have ulp: "0 < ulp" by (simp add: ulp_def pow2_def)
  from assms False have r: "r = (if q < 0 then - (of_int m * ulp) else of_int m * ulp)"
    by (simp add: to_double_def Let_def ulp_def m_def split: if_splits)
  have "\<bar>of_int m - \<bar>q\<bar> / ulp\<bar> \<le> 1 / 2"
    unfolding m_def by (rule round_half_even_error)
  then have "\<bar>of_int m - \<bar>q\<bar> / ulp\<bar> * ulp \<le> 1 / 2 * ulp"
    using ulp by (simp only: mult_le_cancel_right_pos)
  moreover have "\<bar>of_int m - \<bar>q\<bar> / ulp\<bar> * ulp = \<bar>of_int m * ulp - \<bar>q\<bar>\<bar>"
  proof -
    have "\<bar>of_int m - \<bar>q\<bar> / ulp\<bar> * ulp = \<bar>of_int m - \<bar>q\<bar> / ulp\<bar> * \<bar>ulp\<bar>"
      using ulp by simp
    also have "\<dots> = \<bar>(of_int m - \<bar>q\<bar> / ulp) * ulp\<bar>"
      by (simp only: abs_mult)
    also have "(of_int m - \<bar>q\<bar> / ulp) * ulp = of_int m * ulp - \<bar>q\<bar>"
      using ulp by (simp add: left_diff_distrib)
    finally show ?thesis .
  qed
  ultimately have "\<bar>of_int m * ulp - \<bar>q\<bar>\<bar> \<le> ulp / 2" by simp
  then show ?thesis
    unfolding ulp_def [symmetric] by (simp add: r abs_if split: if_splits)
qed

subsection \<open>\<open>money\<close>\<close>

lemma floor_rat_numeral: "\<lfloor>numeral a / numeral b :: rat\<rfloor> = numeral a div numeral b"
  using floor_divide_of_int_eq [of "numeral a" "numeral b", where ?'a = rat] by simp

lemma ceiling_rat_numeral:
  "\<lceil>numeral a / numeral b :: rat\<rceil> = - (- numeral a div numeral b)"
  using ceiling_divide_eq_div [of "numeral a" "numeral b", where ?'a = rat] by simp

lemma bit_length_numeral:
  "bit_length (numeral n) = Suc (bit_length (numeral n div 2))"
  "bit_length 0 = 0"
  "bit_length (Suc 0) = Suc 0"
  by (simp_all add: bit_length.simps)

lemmas double_eval =
  to_double_def ilog2_def pow2_def round_half_even_def Let_def
  floor_rat_numeral ceiling_rat_numeral bit_length_numeral

lemmas number_eval =
  StringToNumber_def StrDecimalLiteral_def StrUnsignedDecimalLiteral_def ExponentPart_def
  NonDecimalIntegerLiteral_def trim_def is_space_def is_digit_def in_range_def
  digits_value_def digit_value_def pow10_def hex_digit_def

lemmas money_eval =
  money_def num_fun_def num_pred_def isFinite_def num_ge_def num_le_def

lemma pow2_pos: "0 < pow2 k"
  by (simp add: pow2_def)

lemma round_half_even_nonneg: "0 \<le> x \<Longrightarrow> 0 \<le> round_half_even x"
  by (auto simp add: round_half_even_def Let_def)

lemma to_double_nonneg:
  assumes "0 \<le> q"
  shows "to_double q = PosInf \<or> (\<exists>r. 0 \<le> r \<and> to_double q = Fin r)"
proof (cases "q = 0")
  case True
  then show ?thesis by (simp add: to_double_def)
next
  case False
  with assms have pos: "0 < q" by simp
  define ulp where "ulp = pow2 (max (ilog2 \<bar>q\<bar>) (- 1022) - 52)"
  have ulp: "0 < ulp" by (simp add: ulp_def pow2_pos)
  with pos have "0 \<le> \<bar>q\<bar> / ulp" by simp
  then have "0 \<le> round_half_even (\<bar>q\<bar> / ulp)" by (rule round_half_even_nonneg)
  with ulp have "0 \<le> of_int (round_half_even (\<bar>q\<bar> / ulp)) * ulp" by simp
  with pos show ?thesis
    by (auto simp add: to_double_def Let_def ulp_def)
qed

lemma scaled_nonneg:
  assumes "0 \<le> q"
  shows "num_mul (Fin q) (Fin 100) = PosInf
         \<or> (\<exists>x. 0 \<le> x \<and> num_mul (Fin q) (Fin 100) = Fin x)"
  using to_double_nonneg [of "q * 100"] assms by (simp add: num_mul_def)

lemma Math_round_half_away:
  "0 \<le> x \<Longrightarrow> Math_round (Fin x) = Fin (of_int (round_half_away x))"
  by (simp add: round_half_away_def)

lemma money_number:
  assumes "0 \<le> q"
  shows "safeParse (money l msg) (JNum (Fin q))
           = SafeParseSuccess (JNum (num_div_by 100 (Math_round (num_mul (Fin q) (Fin 100)))))"
  using assms by (simp add: money_eval zod_defs Let_def)

lemma money_string:
  assumes "StringToNumber s = Fin q" and "0 \<le> q"
  shows "safeParse (money l msg) (JStr s)
           = SafeParseSuccess (JNum (num_div_by 100 (Math_round (num_mul (Fin q) (Fin 100)))))"
  using assms by (simp add: money_eval zod_defs Let_def)

lemma money_success:
  assumes "safeParse (money l msg) v = SafeParseSuccess out"
  shows "\<exists>q. 0 \<le> q \<and> (v = JNum (Fin q) \<or> (\<exists>s. v = JStr s \<and> StringToNumber s = Fin q))
             \<and> out = JNum (num_div_by 100 (Math_round (num_mul (Fin q) (Fin 100))))"
proof (cases v)
  case (JNum n)
  with assms show ?thesis
    by (cases n) (auto simp add: money_eval zod_defs Let_def split: if_splits)
next
  case (JStr s)
  with assms show ?thesis
    by (cases "StringToNumber s") (auto simp add: money_eval zod_defs Let_def split: if_splits)
qed (use assms in \<open>simp_all add: money_eval zod_defs Let_def\<close>)

text \<open>Two known values of the arithmetic: the double of \<open>0.1\<close>, and \<open>1.005 * 100\<close>.\<close>

lemma double_examples:
  "to_double (1 / 10) = Fin (3602879701896397 / 36028797018963968)"
  "num_mul (to_double (1005 / 1000)) (Fin 100) = Fin (7072058789855231 / 70368744177664)"
  by (simp_all add: num_mul_def double_eval)

lemma StringToNumber_examples:
  "StringToNumber ''12.345'' = Fin (6949617174986097 / 562949953421312)"
  "StringToNumber ''12.35'' = Fin (6952431924753203 / 562949953421312)"
  "StringToNumber ''12.34'' \<noteq> StringToNumber ''12.35''"
  "StringToNumber ''abc'' = NaN"
  by (simp_all add: number_eval double_eval)

text \<open>
  C3. \<open>money()\<close> accepts the string \<open>"12.345"\<close> with the output 12.35 (the double that
  the literal \<open>12.35\<close> denotes, which is not 12.34), rejects \<open>-1\<close> with a failure of the
  check \<open>n >= 0\<close> and rejects \<open>"abc"\<close>, which fails the finiteness check (and the check
  \<open>n >= 0\<close> as well, \<open>NaN\<close> being compared). Every accepted input is a finite number
  \<open>n >= 0\<close>, or a string that converts to one, and its output is
  \<open>Math.round(n * 100) / 100\<close>; the scaled value \<open>n * 100\<close> is then not negative, where
  \<open>Math.round\<close> is rounding to the nearest integer with a tie going away from zero.
\<close>

theorem money_rounding:
  "safeParse (money None Omitted) (JStr ''12.345'')
     = SafeParseSuccess (JNum (StringToNumber ''12.35''))
   \<and> StringToNumber ''12.34'' \<noteq> StringToNumber ''12.35''
   \<and> failures (safeParse (money None Omitted) (JNum (Fin (- 1))))
     = [(Validation, ''Amount must be >= 0'')]
   \<and> failures (safeParse (money None Omitted) (JStr ''abc''))
     = [(Validation, ''Amount must be a number''), (Validation, ''Amount must be >= 0'')]
   \<and> (safeParse (money l msg) v = SafeParseSuccess out \<longrightarrow>
        (\<exists>q. 0 \<le> q \<and> (v = JNum (Fin q) \<or> (\<exists>s. v = JStr s \<and> StringToNumber s = Fin q))
             \<and> out = JNum (num_div_by 100 (Math_round (num_mul (Fin q) (Fin 100))))))
   \<and> (0 \<le> q \<longrightarrow>
        safeParse (money l msg) (JNum (Fin q))
          = SafeParseSuccess (JNum (num_div_by 100 (Math_round (num_mul (Fin q) (Fin 100)))))
        \<and> (num_mul (Fin q) (Fin 100) = PosInf
            \<or> (\<exists>x. 0 \<le> x \<and> num_mul (Fin q) (Fin 100) = Fin x
                   \<and> Math_round (Fin x) = Fin (of_int (round_half_away x)))))"
proof -
  have a: "safeParse (money None Omitted) (JStr ''12.345'')
             = SafeParseSuccess (JNum (StringToNumber ''12.35''))"
    by (simp add: money_string [OF StringToNumber_examples(1)] StringToNumber_examples(2)
        num_mul_def double_eval)
  have b: "failures (safeParse (money None Omitted) (JNum (Fin (- 1))))
             = [(Validation, ''Amount must be >= 0'')]"
    by (simp add: money_eval zod_defs message_defs)
  have c: "failures (safeParse (money None Omitted) (JStr ''abc''))
             = [(Validation, ''Amount must be a number''), (Validation, ''Amount must be >= 0'')]"
    by (simp add: money_eval zod_defs message_defs StringToNumber_examples(4))
  have d: "safeParse (money l msg) v = SafeParseSuccess out \<longrightarrow>
        (\<exists>q. 0 \<le> q \<and> (v = JNum (Fin q) \<or> (\<exists>s. v = JStr s \<and> StringToNumber s = Fin q))
             \<and> out = JNum (num_div_by 100 (Math_round (num_mul (Fin q) (Fin 100)))))"
    using money_success [of l msg v out] by blast
  have e: "0 \<le> q \<longrightarrow>
        safeParse (money l msg) (JNum (Fin q))
          = SafeParseSuccess (JNum (num_div_by 100 (Math_round (num_mul (Fin q) (Fin 100)))))
        \<and> (num_mul (Fin q) (Fin 100) = PosInf
            \<or> (\<exists>x. 0 \<le> x \<and> num_mul (Fin q) (Fin 100) = Fin x
                   \<and> Math_round (Fin x) = Fin (of_int (round_half_away x))))"
    using money_number [of q l msg] scaled_nonneg [of q] Math_round_half_away by blast
  from a StringToNumber_examples(3) b c d e show ?thesis by (intro conjI)
qed

theorem money_rounding_witness:
  "safeParse (money None Omitted) (JNum (Fin (5 / 2))) = SafeParseSuccess (JNum (Fin (5 / 2)))
   \<and> num_mul (Fin (5 / 2)) (Fin 100) = Fin 250
   \<and> Math_round (Fin 250) = Fin (of_int (round_half_away 250))"
proof -
  have m: "num_mul (Fin (5 / 2)) (Fin 100) = Fin 250"
    by (simp add: num_mul_def double_eval)
  have r: "Math_round (Fin 250) = Fin 250"
    by (simp add: floor_rat_numeral)
  have d: "num_div_by 100 (Fin 250) = Fin (5 / 2)"
    by (simp add: double_eval)
  have h: "(0::rat) \<le> 5 / 2"
    by simp
  note last_conjunct =
    money_rounding [of None Omitted "JNum (Fin (5 / 2))" "JNum (Fin (5 / 2))" "5 / 2",
      THEN conjunct2, THEN conjunct2, THEN conjunct2, THEN conjunct2, THEN conjunct2]
  from last_conjunct h
  have "safeParse (money None Omitted) (JNum (Fin (5 / 2)))
          = SafeParseSuccess (JNum (num_div_by 100 (Math_round (num_mul (Fin (5 / 2)) (Fin 100)))))"
    by (rule mp [THEN conjunct1])
  then have "safeParse (money None Omitted) (JNum (Fin (5 / 2)))
               = SafeParseSuccess (JNum (Fin (5 / 2)))"
    by (simp only: m r d)
  with m r show ?thesis
    by (simp add: round_half_away_def floor_rat_numeral)
qed

end
